theory Spec2Isabelle
  imports Main "HOL-Library.Sublist"
begin

section \<open>Byte strings and the library functions the handler calls\<close>

text \<open>
  A Go \<^verbatim>\<open>string\<close> is a sequence of bytes, modelled as \<^typ>\<open>string\<close> (a list of
  8-bit characters). The functions of the packages \<^verbatim>\<open>strings\<close>, \<^verbatim>\<open>net\<close> and
  \<^verbatim>\<open>net/url\<close> that \<^verbatim>\<open>proxy/handler.go\<close> calls are modelled after the Go
  standard library, byte for byte where the library works on bytes.
\<close>

abbreviation LF :: char where "LF \<equiv> CHR 0x0A"
abbreviation CR :: char where "CR \<equiv> CHR 0x0D"

definition CRLF :: string where
  "CRLF = [CR, LF]"

text \<open>
  \<^verbatim>\<open>strings.ToLower\<close> and \<^verbatim>\<open>strings.ToUpper\<close>: on a string of ASCII bytes Go maps
  \<^verbatim>\<open>'A'..'Z'\<close> to \<^verbatim>\<open>'a'..'z'\<close> (and back) and leaves every other byte alone. Bytes
  from 0x80 on are left unchanged here; Go would decode them as UTF-8, use the
  Unicode case tables and replace a byte that is not valid UTF-8 by U+FFFD, all of
  which is outside this model: on a host or a method with such bytes the model and
  the code can differ. The theorems on the blocklist are stated on the host as
  normalised, and no proof below rests on what these two functions do to a byte
  from 0x80 on; the tests for \<^verbatim>\<open>CONNECT\<close> and for the prefix \<^verbatim>\<open>host:\<close> agree with
  Go on every input, since no rune outside ASCII is mapped to a letter of either.
\<close>

definition lower_byte :: "char \<Rightarrow> char" where
  "lower_byte c =
     (let n = (of_char c :: nat) in if 65 \<le> n \<and> n \<le> 90 then char_of (n + 32) else c)"

definition upper_byte :: "char \<Rightarrow> char" where
  "upper_byte c =
     (let n = (of_char c :: nat) in if 97 \<le> n \<and> n \<le> 122 then char_of (n - 32) else c)"

definition ToLower :: "string \<Rightarrow> string" where
  "ToLower s = map lower_byte s"

definition ToUpper :: "string \<Rightarrow> string" where
  "ToUpper s = map upper_byte s"

definition HasPrefix :: "string \<Rightarrow> string \<Rightarrow> bool" where
  "HasPrefix s pre = (take (length pre) s = pre)"

text \<open>\<^verbatim>\<open>IndexByte\<close> and \<^verbatim>\<open>LastIndexByte\<close>: \<open>None\<close> is Go's \<^verbatim>\<open>-1\<close>.\<close>

fun IndexByte :: "string \<Rightarrow> char \<Rightarrow> nat option" where
  "IndexByte [] c = None"
| "IndexByte (x # xs) c = (if x = c then Some 0 else map_option Suc (IndexByte xs c))"

fun LastIndexByte :: "string \<Rightarrow> char \<Rightarrow> nat option" where
  "LastIndexByte [] c = None"
| "LastIndexByte (x # xs) c =
     (case LastIndexByte xs c of
        Some i \<Rightarrow> Some (Suc i)
      | None \<Rightarrow> if x = c then Some 0 else None)"

text \<open>
  \<^verbatim>\<open>strings.Split(s, sep)\<close> for a separator of one byte (the handler splits on
  \<^verbatim>\<open>"."\<close>): the pieces between the separators, at least one piece.
  \<^verbatim>\<open>strings.Join(parts, sep)\<close> puts the separator between the pieces.
\<close>

fun Split :: "string \<Rightarrow> char \<Rightarrow> string list" where
  "Split [] sep = [[]]"
| "Split (c # cs) sep =
     (if c = sep then [] # Split cs sep
      else (case Split cs sep of
              [] \<Rightarrow> [[c]]
            | p # ps \<Rightarrow> (c # p) # ps))"

fun Join :: "string list \<Rightarrow> string \<Rightarrow> string" where
  "Join [] sep = []"
| "Join [p] sep = p"
| "Join (p # ps) sep = p @ sep @ Join ps sep"

subsection \<open>\<^verbatim>\<open>net.SplitHostPort\<close> and \<^verbatim>\<open>net.JoinHostPort\<close>\<close>

datatype addr_error =
    MissingPort
  | TooManyColons
  | MissingBracket
  | UnexpectedOpenBracket
  | UnexpectedCloseBracket

text \<open>
  The last two checks of \<^verbatim>\<open>SplitHostPort\<close>: no \<^verbatim>\<open>'['\<close> from position \<open>j\<close> on, no
  \<^verbatim>\<open>']'\<close> from position \<open>k\<close> on; then the port is what follows the last colon.
\<close>

definition split_result ::
  "string \<Rightarrow> string \<Rightarrow> nat \<Rightarrow> nat \<Rightarrow> nat \<Rightarrow> addr_error + (string \<times> string)" where
  "split_result hostport host j k i =
     (if IndexByte (drop j hostport) (CHR ''['') \<noteq> None then Inl UnexpectedOpenBracket
      else if IndexByte (drop k hostport) (CHR '']'') \<noteq> None then Inl UnexpectedCloseBracket
      else Inr (host, drop (i + 1) hostport))"

definition SplitHostPort :: "string \<Rightarrow> addr_error + (string \<times> string)" where
  "SplitHostPort hostport =
     (case LastIndexByte hostport (CHR '':'') of
        None \<Rightarrow> Inl MissingPort
      | Some i \<Rightarrow>
          if take 1 hostport = ''[''
          then (case IndexByte hostport (CHR '']'') of
                  None \<Rightarrow> Inl MissingBracket
                | Some e \<Rightarrow>
                    if e + 1 = length hostport then Inl MissingPort
                    else if e + 1 = i
                    then split_result hostport (take (e - 1) (drop 1 hostport)) 1 (e + 1) i
                    else if hostport ! (e + 1) = CHR '':'' then Inl TooManyColons
                    else Inl MissingPort)
          else if IndexByte (take i hostport) (CHR '':'') \<noteq> None then Inl TooManyColons
          else split_result hostport (take i hostport) 0 0 i)"

definition JoinHostPort :: "string \<Rightarrow> string \<Rightarrow> string" where
  "JoinHostPort host port =
     (if IndexByte host (CHR '':'') \<noteq> None then ''['' @ host @ '']:'' @ port
      else host @ '':'' @ port)"

section \<open>The blocklist matcher\<close>

text \<open>
  The blocklist is a Go \<^verbatim>\<open>map[string]bool\<close>; indexing it with a key it does not
  hold yields \<^verbatim>\<open>false\<close>.
\<close>

type_synonym blocklist = "string \<rightharpoonup> bool"

definition map_index :: "blocklist \<Rightarrow> string \<Rightarrow> bool" where
  "map_index m k = (case m k of None \<Rightarrow> False | Some b \<Rightarrow> b)"

text \<open>
  The loop of \<^verbatim>\<open>isBlocked\<close>:
  \<^verbatim>\<open>for i := 1; i < len(parts); i++ { if blocklist[Join(parts[i:], ".")] { return true } }\<close>
  followed by \<^verbatim>\<open>return false\<close>.
\<close>

function parent_loop :: "string list \<Rightarrow> nat \<Rightarrow> blocklist \<Rightarrow> bool" where
  "parent_loop parts i blocklist =
     (if i < length parts
      then (if map_index blocklist (Join (drop i parts) ''.'') then True
            else parent_loop parts (Suc i) blocklist)
      else False)"
  by pat_completeness auto
termination
  by (relation "measure (\<lambda>(parts, i, blocklist). length parts - i)") auto

declare parent_loop.simps [simp del]

definition isBlocked :: "string \<Rightarrow> blocklist \<Rightarrow> bool" where
  "isBlocked host0 blocklist =
     (let lowered = ToLower host0;
          host = (case SplitHostPort lowered of Inr (h, p) \<Rightarrow> h | Inl err \<Rightarrow> lowered)
      in if host = [] then False
         else if map_index blocklist host then True
         else parent_loop (Split host (CHR ''.'')) 1 blocklist)"

section \<open>White space, fields and lines\<close>

text \<open>
  \<^verbatim>\<open>strings.Fields\<close> and \<^verbatim>\<open>strings.TrimSpace\<close> use \<^verbatim>\<open>unicode.IsSpace\<close>: the six
  ASCII white-space bytes, and the runes U+0085, U+00A0, U+1680, U+2000 to U+200A,
  U+2028, U+2029, U+202F, U+205F and U+3000, listed here in their UTF-8 encoding. Every
  such encoding starts with a lead byte, so matching the byte sequences finds the same
  runes as Go's decoder does.
\<close>

definition space_runes :: "string list" where
  "space_runes =
     [[CHR 0x09], [CHR 0x0A], [CHR 0x0B], [CHR 0x0C], [CHR 0x0D], [CHR 0x20],
      [CHR 0xC2, CHR 0x85], [CHR 0xC2, CHR 0xA0],
      [CHR 0xE1, CHR 0x9A, CHR 0x80],
      [CHR 0xE2, CHR 0x80, CHR 0x80], [CHR 0xE2, CHR 0x80, CHR 0x81],
      [CHR 0xE2, CHR 0x80, CHR 0x82], [CHR 0xE2, CHR 0x80, CHR 0x83],
      [CHR 0xE2, CHR 0x80, CHR 0x84], [CHR 0xE2, CHR 0x80, CHR 0x85],
      [CHR 0xE2, CHR 0x80, CHR 0x86], [CHR 0xE2, CHR 0x80, CHR 0x87],
      [CHR 0xE2, CHR 0x80, CHR 0x88], [CHR 0xE2, CHR 0x80, CHR 0x89],
      [CHR 0xE2, CHR 0x80, CHR 0x8A],
      [CHR 0xE2, CHR 0x80, CHR 0xA8], [CHR 0xE2, CHR 0x80, CHR 0xA9],
      [CHR 0xE2, CHR 0x80, CHR 0xAF],
      [CHR 0xE2, CHR 0x81, CHR 0x9F],
      [CHR 0xE3, CHR 0x80, CHR 0x80]]"

text \<open>
  The width in bytes of the rune of \<open>runes\<close> that \<open>s\<close> starts with, \<open>0\<close> when it
  starts with none.
\<close>

definition rune_width :: "string list \<Rightarrow> string \<Rightarrow> nat" where
  "rune_width runes s =
     (case find (\<lambda>w. HasPrefix s w) runes of None \<Rightarrow> 0 | Some w \<Rightarrow> length w)"

text \<open>
  \<^verbatim>\<open>strings.Fields\<close>: \<open>skip\<close> counts the bytes still to pass of a white-space rune,
  \<open>cur\<close> is the field being read.
\<close>

fun Fields_scan :: "nat \<Rightarrow> string \<Rightarrow> string \<Rightarrow> string list" where
  "Fields_scan skip cur [] = (if cur = [] then [] else [cur])"
| "Fields_scan skip cur (c # cs) =
     (if 0 < skip then Fields_scan (skip - 1) cur cs
      else if 0 < rune_width space_runes (c # cs)
      then (if cur = [] then [] else [cur])
             @ Fields_scan (rune_width space_runes (c # cs) - 1) [] cs
      else Fields_scan 0 (cur @ [c]) cs)"

definition Fields :: "string \<Rightarrow> string list" where
  "Fields s = Fields_scan 0 [] s"

text \<open>
  \<^verbatim>\<open>strings.TrimSpace\<close>: the white-space runes at the front are dropped, then those at
  the back (read on the reversed string, against the reversed encodings).
\<close>

fun trim_front :: "string list \<Rightarrow> nat \<Rightarrow> string \<Rightarrow> string" where
  "trim_front runes skip [] = []"
| "trim_front runes skip (c # cs) =
     (if 0 < skip then trim_front runes (skip - 1) cs
      else if 0 < rune_width runes (c # cs)
      then trim_front runes (rune_width runes (c # cs) - 1) cs
      else c # cs)"

definition TrimSpace :: "string \<Rightarrow> string" where
  "TrimSpace s =
     rev (trim_front (map rev space_runes) 0 (rev (trim_front space_runes 0 s)))"

text \<open>
  \<^verbatim>\<open>bufio.Reader.ReadString(delim)\<close> on a stream that still delivers the bytes \<open>input\<close>
  and then ends (or fails): the line up to and including the first delimiter and what
  is left in the reader, or \<open>None\<close> for the error Go returns when the stream ends
  before a delimiter (the handler drops the bytes read so far in that case).
\<close>

fun ReadString :: "string \<Rightarrow> char \<Rightarrow> (string \<times> string) option" where
  "ReadString [] delim = None"
| "ReadString (c # cs) delim =
     (if c = delim then Some ([c], cs)
      else (case ReadString cs delim of
              None \<Rightarrow> None
            | Some (line, rest) \<Rightarrow> Some (c # line, rest)))"

text \<open>\<^verbatim>\<open>fmt.Sprintf("%d", n)\<close>.\<close>

function decimal :: "nat \<Rightarrow> string" where
  "decimal n =
     (if n < 10 then [char_of (48 + n)]
      else decimal (n div 10) @ [char_of (48 + n mod 10)])"
  by pat_completeness auto
termination
  by (relation "measure (\<lambda>n. n)") auto

declare decimal.simps [simp del]

definition Sprintf_d :: "int \<Rightarrow> string" where
  "Sprintf_d n = (if n < 0 then CHR ''-'' # decimal (nat (- n)) else decimal (nat n))"

section \<open>Loading the blocklist\<close>

text \<open>
  The loop of \<^verbatim>\<open>loadBlockedDomains\<close> in \<^verbatim>\<open>main.go\<close> over the lines of the blocklist
  file: a line that is empty after trimming, or a comment, is skipped; every other line
  is entered in lower case.
\<close>

definition add_domain :: "blocklist \<Rightarrow> string \<Rightarrow> blocklist" where
  "add_domain blocklist line =
     (let domain = TrimSpace line
      in if domain \<noteq> [] \<and> \<not> HasPrefix domain ''#''
         then blocklist(ToLower domain \<mapsto> True)
         else blocklist)"

definition loadBlockedDomains :: "string list \<Rightarrow> blocklist" where
  "loadBlockedDomains lines = foldl add_domain Map.empty lines"

section \<open>\<^verbatim>\<open>net/url\<close>: parsing an absolute URI\<close>

text \<open>
  \<^verbatim>\<open>url.Parse\<close> after Go 1.21, for the fields the handler reads (\<^verbatim>\<open>Scheme\<close>,
  \<^verbatim>\<open>Host\<close>, \<^verbatim>\<open>Path\<close>, \<^verbatim>\<open>RawQuery\<close>). An error is \<open>None\<close>: the handler only asks
  whether \<^verbatim>\<open>err == nil\<close>. The user information is validated and dropped, since the
  handler never reads it.
\<close>

record URL =
  Scheme :: string
  Opaque :: string
  Host :: string
  Path :: string
  RawQuery :: string
  Fragment :: string

datatype encoding =
    EncodePath
  | EncodeHost
  | EncodeZone
  | EncodeUserPassword
  | EncodeFragment

definition is_alpha :: "char \<Rightarrow> bool" where
  "is_alpha c =
     (let n = (of_char c :: nat) in (97 \<le> n \<and> n \<le> 122) \<or> (65 \<le> n \<and> n \<le> 90))"

definition is_digit :: "char \<Rightarrow> bool" where
  "is_digit c = (let n = (of_char c :: nat) in 48 \<le> n \<and> n \<le> 57)"

definition ishex :: "char \<Rightarrow> bool" where
  "ishex c =
     (let n = (of_char c :: nat)
      in (48 \<le> n \<and> n \<le> 57) \<or> (97 \<le> n \<and> n \<le> 102) \<or> (65 \<le> n \<and> n \<le> 70))"

definition unhex :: "char \<Rightarrow> nat" where
  "unhex c =
     (let n = (of_char c :: nat)
      in if 48 \<le> n \<and> n \<le> 57 then n - 48
         else if 97 \<le> n \<and> n \<le> 102 then n - 97 + 10
         else if 65 \<le> n \<and> n \<le> 70 then n - 65 + 10
         else 0)"

text \<open>\<^verbatim>\<open>strings.Cut\<close> and \<^verbatim>\<open>strings.Index\<close>, the separator of \<^verbatim>\<open>Cut\<close> being one byte.\<close>

fun Cut :: "string \<Rightarrow> char \<Rightarrow> string \<times> string \<times> bool" where
  "Cut [] sep = ([], [], False)"
| "Cut (c # cs) sep =
     (if c = sep then ([], cs, True)
      else (case Cut cs sep of (before, after, found) \<Rightarrow> (c # before, after, found)))"

fun Index :: "string \<Rightarrow> string \<Rightarrow> nat option" where
  "Index [] sub = (if sub = [] then Some 0 else None)"
| "Index (c # cs) sub =
     (if HasPrefix (c # cs) sub then Some 0 else map_option Suc (Index cs sub))"

definition stringContainsCTLByte :: "string \<Rightarrow> bool" where
  "stringContainsCTLByte s = list_ex (\<lambda>b. (of_char b :: nat) < 32 \<or> of_char b = (127 :: nat)) s"

text \<open>
  \<^verbatim>\<open>getScheme\<close>: \<open>scanned\<close> is \<^verbatim>\<open>rawURL[:i]\<close>. \<open>None\<close> is the error
  \<^verbatim>\<open>missing protocol scheme\<close>.
\<close>

fun getScheme_scan :: "string \<Rightarrow> string \<Rightarrow> string \<Rightarrow> (string \<times> string) option" where
  "getScheme_scan rawURL scanned [] = Some ([], rawURL)"
| "getScheme_scan rawURL scanned (c # cs) =
     (if is_alpha c then getScheme_scan rawURL (scanned @ [c]) cs
      else if is_digit c \<or> c = CHR ''+'' \<or> c = CHR ''-'' \<or> c = CHR ''.''
      then (if scanned = [] then Some ([], rawURL)
            else getScheme_scan rawURL (scanned @ [c]) cs)
      else if c = CHR '':''
      then (if scanned = [] then None else Some (scanned, cs))
      else Some ([], rawURL))"

definition getScheme :: "string \<Rightarrow> (string \<times> string) option" where
  "getScheme rawURL = getScheme_scan rawURL [] rawURL"

text \<open>
  \<^verbatim>\<open>shouldEscape(c, encodeHost)\<close>: letters, digits, the sub-delimiters and brackets
  allowed in a host, and the unreserved marks need no escape.
\<close>

definition shouldEscape_host :: "char \<Rightarrow> bool" where
  "shouldEscape_host c =
     (\<not> (is_alpha c \<or> is_digit c
         \<or> c \<in> set [CHR ''!'', CHR ''$'', CHR ''&'', CHR 0x27, CHR ''('', CHR '')'',
                     CHR ''*'', CHR ''+'', CHR '','', CHR '';'', CHR ''='', CHR '':'',
                     CHR ''['', CHR '']'', CHR ''<'', CHR ''>'', CHR 0x22]
         \<or> c \<in> set [CHR ''-'', CHR ''_'', CHR ''.'', CHR ''~'']))"

text \<open>
  \<^verbatim>\<open>unescape(s, mode)\<close>: a \<^verbatim>\<open>%\<close> must be followed by two hexadecimal digits; in a
  host only bytes from 0x80 on (and \<^verbatim>\<open>%25\<close>) may be escaped, and an ASCII byte that
  would need an escape is an error.
\<close>

fun unescape :: "encoding \<Rightarrow> string \<Rightarrow> string option" where
  "unescape mode [] = Some []"
| "unescape mode (c # cs) =
     (if c = CHR ''%''
      then (case cs of
              h1 # h2 # rest \<Rightarrow>
                if \<not> ishex h1 \<or> \<not> ishex h2 then None
                else if mode = EncodeHost \<and> unhex h1 < 8 \<and> [h1, h2] \<noteq> ''25'' then None
                else if mode = EncodeZone \<and> [h1, h2] \<noteq> ''25''
                        \<and> unhex h1 * 16 + unhex h2 \<noteq> 32
                        \<and> shouldEscape_host (char_of (unhex h1 * 16 + unhex h2))
                then None
                else map_option ((#) (char_of (unhex h1 * 16 + unhex h2))) (unescape mode rest)
            | _ \<Rightarrow> None)
      else if (mode = EncodeHost \<or> mode = EncodeZone) \<and> (of_char c :: nat) < 128
              \<and> shouldEscape_host c
      then None
      else map_option ((#) c) (unescape mode cs))"

definition validOptionalPort :: "string \<Rightarrow> bool" where
  "validOptionalPort port =
     (case port of
        [] \<Rightarrow> True
      | c # digits \<Rightarrow> c = CHR '':'' \<and> list_all is_digit digits)"

definition parseHost :: "string \<Rightarrow> string option" where
  "parseHost host =
     (if HasPrefix host ''[''
      then (case LastIndexByte host (CHR '']'') of
              None \<Rightarrow> None
            | Some i \<Rightarrow>
                if \<not> validOptionalPort (drop (i + 1) host) then None
                else (case Index (take i host) ''%25'' of
                        Some zone \<Rightarrow>
                          (case unescape EncodeHost (take zone host) of
                             None \<Rightarrow> None
                           | Some host1 \<Rightarrow>
                               (case unescape EncodeZone (take (i - zone) (drop zone host)) of
                                  None \<Rightarrow> None
                                | Some host2 \<Rightarrow>
                                    (case unescape EncodeHost (drop i host) of
                                       None \<Rightarrow> None
                                     | Some host3 \<Rightarrow> Some (host1 @ host2 @ host3))))
                      | None \<Rightarrow> unescape EncodeHost host))
      else (case LastIndexByte host (CHR '':'') of
              Some i \<Rightarrow>
                if \<not> validOptionalPort (drop i host) then None
                else unescape EncodeHost host
            | None \<Rightarrow> unescape EncodeHost host))"

definition validUserinfo :: "string \<Rightarrow> bool" where
  "validUserinfo s =
     list_all (\<lambda>r. is_alpha r \<or> is_digit r
                 \<or> r \<in> set [CHR ''-'', CHR ''.'', CHR ''_'', CHR '':'', CHR ''~'',
                             CHR ''!'', CHR ''$'', CHR ''&'', CHR 0x27, CHR ''('',
                             CHR '')'', CHR ''*'', CHR ''+'', CHR '','', CHR '';'',
                             CHR ''='', CHR ''%'', CHR ''@'']) s"

definition parseAuthority :: "string \<Rightarrow> string option" where
  "parseAuthority authority =
     (case LastIndexByte authority (CHR ''@'') of
        None \<Rightarrow> parseHost authority
      | Some i \<Rightarrow>
          (case parseHost (drop (i + 1) authority) of
             None \<Rightarrow> None
           | Some host \<Rightarrow>
               let userinfo = take i authority
               in if \<not> validUserinfo userinfo then None
                  else if IndexByte userinfo (CHR '':'') = None
                  then (case unescape EncodeUserPassword userinfo of
                          None \<Rightarrow> None
                        | Some username \<Rightarrow> Some host)
                  else (case Cut userinfo (CHR '':'') of
                          (username, password, found) \<Rightarrow>
                            (case unescape EncodeUserPassword username of
                               None \<Rightarrow> None
                             | Some u \<Rightarrow>
                                 (case unescape EncodeUserPassword password of
                                    None \<Rightarrow> None
                                  | Some p \<Rightarrow> Some host)))))"

text \<open>
  \<^verbatim>\<open>parse(rawURL, false)\<close>: the scheme, the query after the first \<^verbatim>\<open>?\<close>, then
  either an opaque rest, or an authority after \<^verbatim>\<open>//\<close> and a path. \<^verbatim>\<open>Path\<close> is the
  path with its escapes decoded.
\<close>

definition parse :: "string \<Rightarrow> URL option" where
  "parse rawURL =
     (if stringContainsCTLByte rawURL then None
      else if rawURL = ''*''
      then Some \<lparr>Scheme = [], Opaque = [], Host = [], Path = ''*'', RawQuery = [],
                  Fragment = []\<rparr>
      else (case getScheme rawURL of
              None \<Rightarrow> None
            | Some (scheme0, rest0) \<Rightarrow>
                (case Cut rest0 (CHR ''?'') of
                   (rest, query, found) \<Rightarrow>
                     let scheme = ToLower scheme0
                     in if \<not> HasPrefix rest ''/'' \<and> scheme \<noteq> []
                        then Some \<lparr>Scheme = scheme, Opaque = rest, Host = [], Path = [],
                                    RawQuery = query, Fragment = []\<rparr>
                        else if \<not> HasPrefix rest ''/''
                                \<and> IndexByte (fst (Cut rest (CHR ''/''))) (CHR '':'') \<noteq> None
                        then None
                        else if (scheme \<noteq> [] \<or> \<not> HasPrefix rest ''///'')
                                \<and> HasPrefix rest ''//''
                        then (let authority0 = drop 2 rest;
                                  (authority, path0) =
                                    (case IndexByte authority0 (CHR ''/'') of
                                       None \<Rightarrow> (authority0, [])
                                     | Some i \<Rightarrow> (take i authority0, drop i authority0))
                              in case parseAuthority authority of
                                   None \<Rightarrow> None
                                 | Some host \<Rightarrow>
                                     (case unescape EncodePath path0 of
                                        None \<Rightarrow> None
                                      | Some path \<Rightarrow>
                                          Some \<lparr>Scheme = scheme, Opaque = [], Host = host,
                                                 Path = path, RawQuery = query,
                                                 Fragment = []\<rparr>))
                        else (case unescape EncodePath rest of
                                None \<Rightarrow> None
                              | Some path \<Rightarrow>
                                  Some \<lparr>Scheme = scheme, Opaque = [], Host = [],
                                         Path = path, RawQuery = query, Fragment = []\<rparr>))))"

text \<open>\<^verbatim>\<open>url.Parse\<close>: the fragment after the first \<^verbatim>\<open>#\<close> is cut off and decoded.\<close>

definition url_Parse :: "string \<Rightarrow> URL option" where
  "url_Parse rawURL =
     (case Cut rawURL (CHR ''#'') of
        (u, frag, found) \<Rightarrow>
          (case parse u of
             None \<Rightarrow> None
           | Some url \<Rightarrow>
               if frag = [] then Some url
               else (case unescape EncodeFragment frag of
                       None \<Rightarrow> None
                     | Some f \<Rightarrow> Some (url\<lparr>Fragment := f\<rparr>))))"

text \<open>
  \<^verbatim>\<open>URL.Hostname\<close> and \<^verbatim>\<open>URL.Port\<close>, through the package's own
  \<^verbatim>\<open>splitHostPort\<close>: a valid port after the last colon is split off, and the
  brackets of an IPv6 literal are removed.
\<close>

definition url_splitHostPort :: "string \<Rightarrow> string \<times> string" where
  "url_splitHostPort hostPort =
     (let (host, port) =
            (case LastIndexByte hostPort (CHR '':'') of
               None \<Rightarrow> (hostPort, [])
             | Some colon \<Rightarrow>
                 if validOptionalPort (drop colon hostPort)
                 then (take colon hostPort, drop (colon + 1) hostPort)
                 else (hostPort, []))
      in if HasPrefix host ''['' \<and> host \<noteq> [] \<and> last host = CHR '']''
         then (take (length host - 2) (drop 1 host), port)
         else (host, port))"

definition Hostname :: "URL \<Rightarrow> string" where
  "Hostname u = fst (url_splitHostPort (Host u))"

definition Port :: "URL \<Rightarrow> string" where
  "Port u = snd (url_splitHostPort (Host u))"

section \<open>The host resolver\<close>

definition parseHostPort :: "string \<Rightarrow> string \<Rightarrow> string \<times> string" where
  "parseHostPort addr defaultPort =
     (case SplitHostPort addr of
        Inl err \<Rightarrow> (addr, defaultPort)
      | Inr (host, port) \<Rightarrow> (host, port))"

definition extractHostFromURI :: "string \<Rightarrow> string \<Rightarrow> string \<times> string" where
  "extractHostFromURI rawURI hostHeader =
     (case (if HasPrefix rawURI ''http://'' \<or> HasPrefix rawURI ''https://''
            then url_Parse rawURI else None) of
        Some u \<Rightarrow>
          (Hostname u,
           if Port u = [] then (if Scheme u = ''https'' then ''443'' else ''80'')
           else Port u)
      | None \<Rightarrow>
          if hostHeader \<noteq> [] then parseHostPort (TrimSpace hostHeader) ''80''
          else ([], ''80''))"

definition cleanRequestURI :: "string \<Rightarrow> string" where
  "cleanRequestURI rawURI =
     (case (if HasPrefix rawURI ''http://'' \<or> HasPrefix rawURI ''https://''
            then url_Parse rawURI else None) of
        Some u \<Rightarrow>
          (let path = (if Path u = [] then ''/'' else Path u)
           in if RawQuery u \<noteq> [] then path @ ''?'' @ RawQuery u else path)
      | None \<Rightarrow> rawURI)"

text \<open>
  The choice of \<^verbatim>\<open>HandleConnection\<close> between the two ways to find the target
  (\<^verbatim>\<open>if method == "CONNECT" { ... } else { ... }\<close>), which the specification calls
  \<open>resolve\<close>.
\<close>

definition resolve :: "string \<Rightarrow> string \<Rightarrow> string \<Rightarrow> string \<times> string" where
  "resolve method rawURI hostHeader =
     (if method = ''CONNECT'' then parseHostPort rawURI ''443''
      else extractHostFromURI rawURI hostHeader)"

section \<open>The connection handler\<close>

text \<open>
  What the handler does to the outside is a list of events, in the order of the calls:
  the records passed to \<^verbatim>\<open>logConnection\<close> (the time stamp, read from the clock, is
  left out), the byte strings passed to \<^verbatim>\<open>Write\<close> on the client and on the target
  connection, the addresses passed to \<^verbatim>\<open>net.DialTimeout\<close>, and the closing of the
  two connections by the deferred \<^verbatim>\<open>Close\<close> calls. The two copying goroutines and
  the wait for them are one event: what they transfer depends on the scheduler and on
  the peers. \<open>RelayFromReader body\<close> is the relay of \<^verbatim>\<open>handleHTTP\<close>, whose
  client side is the buffered reader still holding \<open>body\<close>; \<open>RelayFromConn\<close> is the
  relay of \<^verbatim>\<open>handleHTTPS\<close>, whose client side is the connection itself.
\<close>

record log_record =
  clientAddr :: string
  targetHost :: string
  log_method :: string
  status :: string
  details :: string

datatype event =
    LogWrite log_record
  | ClientWrite string
  | DialTimeout string
  | TargetWrite string
  | RelayFromReader string
  | RelayFromConn
  | CloseTarget
  | CloseClient

text \<open>
  The surroundings of one connection: the bytes the client delivers before its stream
  ends or fails, the client's address, the outcome of a dial per address (\<open>None\<close> for
  a connection, \<open>Some e\<close> for the error \<open>e\<close>), whether the \<open>k\<close>-th \<^verbatim>\<open>Write\<close> on the
  target connection succeeds, and whether the \<^verbatim>\<open>Write\<close> of the tunnel's status line
  on the client connection succeeds.
\<close>

record conn_env =
  client_input :: string
  remote_addr :: string
  dial_error :: "string \<Rightarrow> string option"
  target_write_ok :: "nat \<Rightarrow> bool"
  client_write_ok :: bool

definition sendError :: "int \<Rightarrow> string \<Rightarrow> event list" where
  "sendError statusCode statusText =
     [ClientWrite
        (''HTTP/1.1 '' @ Sprintf_d statusCode @ '' '' @ statusText @ CRLF
         @ ''Content-Type: text/plain'' @ CRLF
         @ ''Connection: close'' @ CRLF @ CRLF
         @ Sprintf_d statusCode @ '' '' @ statusText @ [LF])]"

definition logConnection ::
  "string \<Rightarrow> string \<Rightarrow> string \<Rightarrow> string \<Rightarrow> string \<Rightarrow> event list" where
  "logConnection addr host method st det =
     [LogWrite \<lparr>clientAddr = addr, targetHost = host, log_method = method, status = st,
                 details = det\<rparr>]"

lemma ReadString_shorter:
  "ReadString input delim = Some (line, rest) \<Longrightarrow> length rest < length input"
  by (induction input arbitrary: line) (auto split: if_splits option.splits)

text \<open>
  The loop of \<^verbatim>\<open>HandleConnection\<close> that reads the header lines: it stops at the
  first line that is \<^verbatim>\<open>"\r\n"\<close> or \<^verbatim>\<open>"\n"\<close>, or when the stream ends. The result is
  the header list, the captured \<^verbatim>\<open>Host\<close> value and what is left in the reader.
\<close>

function read_headers ::
  "string \<Rightarrow> string list \<Rightarrow> string \<Rightarrow> string list \<times> string \<times> string" where
  "read_headers input headers hostHeader =
     (case ReadString input LF of
        None \<Rightarrow> (headers, hostHeader, [])
      | Some (line, rest) \<Rightarrow>
          if line = CRLF \<or> line = [LF] then (headers, hostHeader, rest)
          else read_headers rest (headers @ [line])
                 (if HasPrefix (ToLower line) ''host:'' then TrimSpace (drop 5 line)
                  else hostHeader))"
  by pat_completeness auto
termination
  by (relation "measure (\<lambda>(input, headers, hostHeader). length input)")
    (auto simp: ReadString_shorter)

declare read_headers.simps [simp del]

definition handleHTTPS :: "conn_env \<Rightarrow> string \<Rightarrow> string \<Rightarrow> event list" where
  "handleHTTPS env host port =
     (let targetAddr = JoinHostPort host port
      in case dial_error env targetAddr of
           Some err \<Rightarrow>
             [DialTimeout targetAddr]
             @ logConnection (remote_addr env) host ''CONNECT'' ''ERROR''
                 (''Failed to connect: '' @ err)
             @ sendError 502 ''Bad Gateway''
         | None \<Rightarrow>
             [DialTimeout targetAddr,
              ClientWrite (''HTTP/1.1 200 Connection Established'' @ CRLF @ CRLF)]
             @ (if \<not> client_write_ok env
                then logConnection (remote_addr env) host ''CONNECT'' ''ERROR''
                       ''Failed to send response''
                else logConnection (remote_addr env) host ''CONNECT'' ''OK''
                       ''Tunnel established''
                     @ [RelayFromConn])
             @ [CloseTarget])"

definition handleHTTP ::
  "conn_env \<Rightarrow> string \<Rightarrow> string \<Rightarrow> string \<Rightarrow> string list \<Rightarrow> string \<Rightarrow> string \<Rightarrow> string
     \<Rightarrow> event list" where
  "handleHTTP env method rawURI httpVersion headers body host port =
     (let targetAddr = JoinHostPort host port
      in case dial_error env targetAddr of
           Some err \<Rightarrow>
             [DialTimeout targetAddr]
             @ logConnection (remote_addr env) host method ''ERROR''
                 (''Failed to connect: '' @ err)
             @ sendError 502 ''Bad Gateway''
         | None \<Rightarrow>
             let cleanedURI = cleanRequestURI rawURI;
                 requestLine = method @ '' '' @ cleanedURI @ '' '' @ httpVersion @ CRLF
             in [DialTimeout targetAddr, TargetWrite requestLine]
                @ (if \<not> target_write_ok env 0
                   then logConnection (remote_addr env) host method ''ERROR''
                          ''Failed to forward request''
                        @ sendError 502 ''Bad Gateway''
                   else map TargetWrite headers
                        @ [TargetWrite CRLF]
                        @ logConnection (remote_addr env) host method ''OK'' cleanedURI
                        @ [RelayFromReader body])
                @ [CloseTarget])"

definition HandleConnection :: "conn_env \<Rightarrow> blocklist \<Rightarrow> event list" where
  "HandleConnection env blocklist =
     (case ReadString (client_input env) LF of
        None \<Rightarrow>
          logConnection (remote_addr env) [] [] ''ERROR'' ''Failed to read request''
      | Some (requestLine, rest) \<Rightarrow>
          let parts = Fields requestLine
          in if length parts < 3
             then logConnection (remote_addr env) [] [] ''ERROR'' ''Invalid request line''
                  @ sendError 400 ''Bad Request''
             else
               let method = ToUpper (parts ! 0);
                   rawURI = parts ! 1;
                   httpVersion = parts ! 2;
                   (headers, hostHeader, body) = read_headers rest [] [];
                   (host, port) = resolve method rawURI hostHeader
               in if isBlocked host blocklist
                  then logConnection (remote_addr env) host method ''BLOCKED''
                         ''Domain is blocked''
                       @ sendError 403 ''Forbidden''
                  else if method = ''CONNECT'' then handleHTTPS env host port
                  else handleHTTP env method rawURI httpVersion headers body host port)
     @ [CloseClient]"

section \<open>Facts about addresses\<close>

lemma IndexByte_None_iff: "IndexByte s c = None \<longleftrightarrow> c \<notin> set s"
  by (induction s) auto

lemma LastIndexByte_None_iff: "LastIndexByte s c = None \<longleftrightarrow> c \<notin> set s"
  by (induction s) (auto split: option.splits)

lemma LastIndexByte_last: "c \<notin> set p \<Longrightarrow> LastIndexByte (a @ c # p) c = Some (length a)"
  by (induction a) (auto simp: LastIndexByte_None_iff split: option.splits)

lemma SplitHostPort_no_colon: "CHR '':'' \<notin> set s \<Longrightarrow> SplitHostPort s = Inl MissingPort"
  by (simp add: SplitHostPort_def LastIndexByte_None_iff [THEN iffD2])

text \<open>
  A string without a colon and without a bracket: a host name, an IPv4 address or a
  port as they are usually written.
\<close>

definition plain :: "string \<Rightarrow> bool" where
  "plain s \<longleftrightarrow> CHR '':'' \<notin> set s \<and> CHR ''['' \<notin> set s \<and> CHR '']'' \<notin> set s"

lemma SplitHostPort_plain:
  assumes "plain a" "plain p"
  shows "SplitHostPort (a @ CHR '':'' # p) = Inr (a, p)"
proof -
  have i: "LastIndexByte (a @ CHR '':'' # p) (CHR '':'') = Some (length a)"
    using assms by (simp add: LastIndexByte_last plain_def)
  have b: "take 1 (a @ CHR '':'' # p) \<noteq> ''[''"
    by (cases a) (use assms(1) in \<open>auto simp: plain_def\<close>)
  have c: "IndexByte a (CHR '':'') = None"
    using assms by (simp add: IndexByte_None_iff plain_def)
  have o: "IndexByte (a @ CHR '':'' # p) (CHR ''['') = None"
    "IndexByte (a @ CHR '':'' # p) (CHR '']'') = None"
    using assms by (simp_all add: IndexByte_None_iff plain_def)
  show ?thesis
    using b c o by (simp add: SplitHostPort_def i split_result_def)
qed

text \<open>Lower-casing leaves colons and brackets where they are.\<close>

lemma of_char_lower_byte:
  "(of_char (lower_byte c) :: nat) =
     (if 65 \<le> (of_char c :: nat) \<and> (of_char c :: nat) \<le> 90 then of_char c + 32 else of_char c)"
  by (simp add: lower_byte_def Let_def)

lemma lower_byte_eq_mark:
  assumes "x = CHR '':'' \<or> x = CHR ''['' \<or> x = CHR '']''"
  shows "lower_byte c = x \<longleftrightarrow> c = x"
proof -
  have "lower_byte c = x \<longleftrightarrow> (of_char (lower_byte c) :: nat) = of_char x"
    by simp
  also have "\<dots> \<longleftrightarrow> (of_char c :: nat) = of_char x"
    using assms by (auto simp: of_char_lower_byte)
  also have "\<dots> \<longleftrightarrow> c = x"
    by simp
  finally show ?thesis .
qed

lemma mark_in_ToLower:
  assumes "x = CHR '':'' \<or> x = CHR ''['' \<or> x = CHR '']''"
  shows "x \<in> set (ToLower s) \<longleftrightarrow> x \<in> set s"
proof -
  have "x \<in> set (ToLower s) \<longleftrightarrow> (\<exists>c \<in> set s. lower_byte c = x)"
    by (auto simp: ToLower_def)
  also have "\<dots> \<longleftrightarrow> (\<exists>c \<in> set s. c = x)"
    unfolding lower_byte_eq_mark [OF assms] ..
  also have "\<dots> \<longleftrightarrow> x \<in> set s"
    by auto
  finally show ?thesis .
qed

lemma plain_ToLower: "plain (ToLower s) \<longleftrightarrow> plain s"
  by (simp add: plain_def mark_in_ToLower)

section \<open>Properties of the blocklist matcher\<close>

text \<open>The blocklist that the program loads never holds the empty string.\<close>

lemma add_domain_keys: "[] \<notin> dom blocklist \<Longrightarrow> [] \<notin> dom (add_domain blocklist line)"
  by (simp add: add_domain_def Let_def ToLower_def)

lemma foldl_add_domain_keys:
  "[] \<notin> dom blocklist \<Longrightarrow> [] \<notin> dom (foldl add_domain blocklist lines)"
  by (induction lines arbitrary: blocklist) (simp_all add: add_domain_keys)

lemma loaded_domains_nonempty: "[] \<notin> dom (loadBlockedDomains lines)"
  by (simp add: loadBlockedDomains_def foldl_add_domain_keys)

text \<open>
  The host as \<^verbatim>\<open>isBlocked\<close> normalises it in its first statements: lower-cased, and
  with the port split off when \<^verbatim>\<open>net.SplitHostPort\<close> accepts the lower-cased host.
\<close>

definition normalized_host :: "string \<Rightarrow> string" where
  "normalized_host h =
     (case SplitHostPort (ToLower h) of Inr (a, p) \<Rightarrow> a | Inl err \<Rightarrow> ToLower h)"

lemma isBlocked_normalized:
  "isBlocked h blocklist \<longleftrightarrow>
     normalized_host h \<noteq> [] \<and>
     (map_index blocklist (normalized_host h)
      \<or> parent_loop (Split (normalized_host h) (CHR ''.'')) 1 blocklist)"
  by (auto simp: isBlocked_def normalized_host_def Let_def)

text \<open>
  A host without a colon is lower-cased and nothing else; from \<open>a:p\<close> with plain \<open>a\<close>
  and \<open>p\<close> the port is stripped.
\<close>

lemma normalized_host_no_port:
  "CHR '':'' \<notin> set h \<Longrightarrow> normalized_host h = ToLower h"
  by (simp add: normalized_host_def SplitHostPort_no_colon mark_in_ToLower)

lemma normalized_host_port:
  assumes "plain a" "plain p"
  shows "normalized_host (a @ '':'' @ p) = ToLower a"
proof -
  have "ToLower (a @ '':'' @ p) = ToLower a @ CHR '':'' # ToLower p"
    by (simp add: ToLower_def lower_byte_def)
  then show ?thesis
    using assms by (simp add: normalized_host_def SplitHostPort_plain plain_ToLower)
qed

subsection \<open>Splitting on a separator and joining again\<close>

lemma Split_nonempty: "Split s c \<noteq> []"
  by (induction s) (auto split: list.splits)

lemma Join_Cons: "ps \<noteq> [] \<Longrightarrow> Join (p # ps) sep = p @ sep @ Join ps sep"
  by (cases ps) auto

lemma Join_Split: "Join (Split s c) [c] = s"
proof (induction s)
  case Nil
  then show ?case by simp
next
  case (Cons a s)
  obtain p ps where sp: "Split s c = p # ps"
    using Split_nonempty [of s c] by (cases "Split s c") auto
  show ?case
  proof (cases "a = c")
    case True
    then show ?thesis using Cons by (simp add: Join_Cons Split_nonempty)
  next
    case False
    then show ?thesis using Cons sp by (cases ps) auto
  qed
qed

lemma Split_append: "Split (p @ c # d) c = Split p c @ Split d c"
  by (induction p) (auto split: list.splits simp: Split_nonempty)

lemma Join_append:
  "xs \<noteq> [] \<Longrightarrow> ys \<noteq> [] \<Longrightarrow> Join (xs @ ys) sep = Join xs sep @ sep @ Join ys sep"
proof (induction xs)
  case Nil
  then show ?case by simp
next
  case (Cons x xs)
  show ?case
  proof (cases "xs = []")
    case True
    then show ?thesis using Cons.prems by (simp add: Join_Cons)
  next
    case False
    then show ?thesis using Cons by (simp add: Join_Cons)
  qed
qed

subsection \<open>The loop over the parent domains\<close>

lemma parent_loop_iff:
  "parent_loop parts i bl \<longleftrightarrow>
     (\<exists>j. i \<le> j \<and> j < length parts \<and> map_index bl (Join (drop j parts) ''.''))"
proof (induction parts i bl rule: parent_loop.induct)
  case (1 parts i bl)
  show ?case
  proof (cases "i < length parts")
    case False
    then show ?thesis by (subst parent_loop.simps) auto
  next
    case inside: True
    show ?thesis
    proof (cases "map_index bl (Join (drop i parts) ''.'')")
      case True
      with inside show ?thesis
        by (subst parent_loop.simps) auto
    next
      case False
      have "parent_loop parts i bl = parent_loop parts (Suc i) bl"
        using inside False by (subst parent_loop.simps) simp
      also have "\<dots> \<longleftrightarrow>
          (\<exists>j. Suc i \<le> j \<and> j < length parts \<and> map_index bl (Join (drop j parts) ''.''))"
        using "1.IH" inside False by simp
      also have "\<dots> \<longleftrightarrow>
          (\<exists>j. i \<le> j \<and> j < length parts \<and> map_index bl (Join (drop j parts) ''.''))"
        using False by (metis Suc_leD Suc_leI le_neq_implies_less)
      finally show ?thesis .
    qed
  qed
qed

text \<open>
  Some proper tail of the labels of \<open>host\<close> joins to \<open>d\<close> exactly when \<open>host\<close> ends
  with a dot followed by \<open>d\<close>.
\<close>

lemma parent_suffix:
  "(\<exists>j. 1 \<le> j \<and> j < length (Split host (CHR ''.''))
        \<and> Join (drop j (Split host (CHR ''.''))) ''.'' = d)
     \<longleftrightarrow> suffix (CHR ''.'' # d) host"
proof
  let ?ps = "Split host (CHR ''.'')"
  assume "\<exists>j. 1 \<le> j \<and> j < length ?ps \<and> Join (drop j ?ps) ''.'' = d"
  then obtain j where j: "1 \<le> j" "j < length ?ps"
    and d: "Join (drop j ?ps) ''.'' = d" by blast
  have "host = Join (take j ?ps @ drop j ?ps) ''.''"
    by (simp add: Join_Split)
  also have "\<dots> = Join (take j ?ps) ''.'' @ ''.'' @ Join (drop j ?ps) ''.''"
    using j by (intro Join_append) auto
  finally have "host = Join (take j ?ps) ''.'' @ CHR ''.'' # d"
    using d by simp
  then show "suffix (CHR ''.'' # d) host"
    by (metis suffixI)
next
  let ?ps = "Split host (CHR ''.'')"
  assume "suffix (CHR ''.'' # d) host"
  then obtain x where host: "host = x @ CHR ''.'' # d"
    by (auto simp: suffix_def)
  let ?j = "length (Split x (CHR ''.''))"
  have sp: "?ps = Split x (CHR ''.'') @ Split d (CHR ''.'')"
    by (simp add: host Split_append)
  have "1 \<le> ?j"
    using Split_nonempty [of x "CHR ''.''"] by (cases "Split x (CHR ''.'')") auto
  moreover have "?j < length ?ps"
    using Split_nonempty [of d "CHR ''.''"] by (simp add: sp)
  moreover have "Join (drop ?j ?ps) ''.'' = d"
    by (simp add: sp Join_Split)
  ultimately show "\<exists>j. 1 \<le> j \<and> j < length ?ps \<and> Join (drop j ?ps) ''.'' = d"
    by blast
qed

lemma map_index_single: "map_index [d \<mapsto> True] k \<longleftrightarrow> k = d"
  by (simp add: map_index_def)

lemma isBlocked_single:
  "isBlocked h [d \<mapsto> True] \<longleftrightarrow>
     normalized_host h \<noteq> [] \<and>
     (normalized_host h = d \<or> suffix (CHR ''.'' # d) (normalized_host h))"
  unfolding isBlocked_normalized parent_loop_iff map_index_single parent_suffix ..

text \<open>
  C1. For a blocklist that holds the single domain \<open>d\<close> (a domain is not the empty
  string: \<^verbatim>\<open>loadBlockedDomains\<close> enters none) and every host \<open>h\<close>,
  \<^verbatim>\<open>isBlocked\<close> returns true if and only if the host, lower-cased and with its port
  stripped, is \<open>d\<close> or ends with a dot followed by \<open>d\<close>.
\<close>

theorem isBlocked_single_domain:
  assumes "d \<noteq> []"
  shows "isBlocked h [d \<mapsto> True] \<longleftrightarrow>
           normalized_host h = d \<or> suffix (''.'' @ d) (normalized_host h)"
proof -
  let ?n = "normalized_host h"
  let ?parts = "Split ?n (CHR ''.'')"
  have "isBlocked h [d \<mapsto> True] \<longleftrightarrow>
      ?n \<noteq> [] \<and> (?n = d \<or> parent_loop ?parts 1 [d \<mapsto> True])"
    by (simp add: isBlocked_normalized map_index_single)
  also have "parent_loop ?parts 1 [d \<mapsto> True] \<longleftrightarrow>
      (\<exists>j. 1 \<le> j \<and> j < length ?parts \<and> Join (drop j ?parts) ''.'' = d)"
    by (simp add: parent_loop_iff map_index_single)
  also have "\<dots> \<longleftrightarrow> suffix (CHR ''.'' # d) ?n"
    by (rule parent_suffix)
  finally have blocked: "isBlocked h [d \<mapsto> True] \<longleftrightarrow>
      ?n \<noteq> [] \<and> (?n = d \<or> suffix (CHR ''.'' # d) ?n)" .
  have "?n \<noteq> []" if "?n = d \<or> suffix (CHR ''.'' # d) ?n"
    using that assms by auto
  with blocked show ?thesis
    by auto
qed

text \<open>
  The entry \<^verbatim>\<open>example.com\<close> blocks \<^verbatim>\<open>example.com\<close>, \<^verbatim>\<open>www.example.com\<close> and
  \<^verbatim>\<open>a.b.example.com\<close>, with or without a port and in any case of the letters, and
  does not block \<^verbatim>\<open>notexample.com\<close>.
\<close>

theorem isBlocked_single_domain_witness:
  "isBlocked ''example.com'' [''example.com'' \<mapsto> True]
   \<and> isBlocked ''www.example.com'' [''example.com'' \<mapsto> True]
   \<and> isBlocked ''a.b.example.com'' [''example.com'' \<mapsto> True]
   \<and> isBlocked ''WWW.Example.COM:8080'' [''example.com'' \<mapsto> True]
   \<and> \<not> isBlocked ''notexample.com'' [''example.com'' \<mapsto> True]"
proof -
  have n: "normalized_host ''example.com'' = ''example.com''"
    "normalized_host ''www.example.com'' = ''www.example.com''"
    "normalized_host ''a.b.example.com'' = ''a.b.example.com''"
    "normalized_host ''WWW.Example.COM:8080'' = ''www.example.com''"
    "normalized_host ''notexample.com'' = ''notexample.com''"
    by code_simp+
  have s: "suffix ''.example.com'' ''www.example.com''"
    "suffix ''.example.com'' ''a.b.example.com''"
    "\<not> suffix ''.example.com'' ''notexample.com''"
    by code_simp+
  have d: "''example.com'' \<noteq> []" by simp
  show ?thesis
    using isBlocked_single_domain [OF d, of "''example.com''"]
      isBlocked_single_domain [OF d, of "''www.example.com''"]
      isBlocked_single_domain [OF d, of "''a.b.example.com''"]
      isBlocked_single_domain [OF d, of "''WWW.Example.COM:8080''"]
      isBlocked_single_domain [OF d, of "''notexample.com''"]
      n s
    by simp
qed

text \<open>
  C6. Whatever the blocklist holds, the empty string included, \<^verbatim>\<open>isBlocked\<close>
  returns false when the host, lower-cased and with its port stripped, is empty.
\<close>

theorem isBlocked_empty_host:
  assumes "normalized_host h = []"
  shows "\<not> isBlocked h blocklist"
proof
  assume "isBlocked h blocklist"
  then have "normalized_host h \<noteq> []"
    by (simp add: isBlocked_normalized)
  with assms show False
    by simp
qed

theorem isBlocked_empty_host_witness:
  "normalized_host [] = [] \<and> \<not> isBlocked [] [[] \<mapsto> True]
   \<and> normalized_host '':8080'' = [] \<and> \<not> isBlocked '':8080'' [[] \<mapsto> True]"
proof -
  have e: "normalized_host [] = []" and p: "normalized_host '':8080'' = []"
    by code_simp+
  show ?thesis
    using isBlocked_empty_host [OF e, of "[[] \<mapsto> True]"]
      isBlocked_empty_host [OF p, of "[[] \<mapsto> True]"] e p
    by simp
qed

section \<open>Properties of the host resolver\<close>

lemma HasPrefix_append: "HasPrefix s pre \<longleftrightarrow> (\<exists>t. s = pre @ t)"
  unfolding HasPrefix_def
  by (metis append_eq_conv_conj)

lemma ToLower_http: "ToLower ''http'' = ''http''" "ToLower ''https'' = ''https''"
  by code_simp+

lemma getScheme_http: "getScheme (''http://'' @ x) = Some (''http'', ''//'' @ x)"
  by (simp add: getScheme_def is_alpha_def is_digit_def)

lemma getScheme_https: "getScheme (''https://'' @ x) = Some (''https'', ''//'' @ x)"
  by (simp add: getScheme_def is_alpha_def is_digit_def)

lemma parse_Scheme_http:
  "parse (''http://'' @ x) = Some u \<Longrightarrow> Scheme u = ''http''"
  unfolding parse_def getScheme_http
  by (auto simp: ToLower_http Let_def split: if_splits prod.splits option.splits)

lemma parse_Scheme_https:
  "parse (''https://'' @ x) = Some u \<Longrightarrow> Scheme u = ''https''"
  unfolding parse_def getScheme_https
  by (auto simp: ToLower_http Let_def split: if_splits prod.splits option.splits)

lemma url_Parse_Scheme_http:
  assumes "HasPrefix rawURI ''http://''" "url_Parse rawURI = Some u"
  shows "Scheme u = ''http''"
proof -
  obtain x where x: "rawURI = ''http://'' @ x"
    using assms(1) by (auto simp: HasPrefix_append)
  obtain b a f where c: "Cut x (CHR ''#'') = (b, a, f)"
    by (cases "Cut x (CHR ''#'')") auto
  have "Cut rawURI (CHR ''#'') = (''http://'' @ b, a, f)"
    by (simp add: x c)
  then show ?thesis
    using assms(2) unfolding url_Parse_def
    using parse_Scheme_http [of b] by (auto split: option.splits if_splits)
qed

lemma url_Parse_Scheme_https:
  assumes "HasPrefix rawURI ''https://''" "url_Parse rawURI = Some u"
  shows "Scheme u = ''https''"
proof -
  obtain x where x: "rawURI = ''https://'' @ x"
    using assms(1) by (auto simp: HasPrefix_append)
  obtain b a f where c: "Cut x (CHR ''#'') = (b, a, f)"
    by (cases "Cut x (CHR ''#'')") auto
  have "Cut rawURI (CHR ''#'') = (''https://'' @ b, a, f)"
    by (simp add: x c)
  then show ?thesis
    using assms(2) unfolding url_Parse_def
    using parse_Scheme_https [of b] by (auto split: option.splits if_splits)
qed


text \<open>
  The cases of the resolver. For \<^verbatim>\<open>CONNECT\<close> the URI is split by
  \<^verbatim>\<open>net.SplitHostPort\<close>, and is the host with port \<^verbatim>\<open>443\<close> when it cannot be split:
  a URI without a colon has port \<^verbatim>\<open>443\<close>, and \<open>h:p\<close> with plain \<open>h\<close> and \<open>p\<close> gives
  \<open>(h, p)\<close>, also when \<open>p\<close> is empty. For another method: a URI that begins with
  \<^verbatim>\<open>http://\<close> or \<^verbatim>\<open>https://\<close> and parses gives the host name and the port of the
  parsed URL, the port being \<^verbatim>\<open>80\<close> for \<^verbatim>\<open>http\<close> and \<^verbatim>\<open>443\<close> for \<^verbatim>\<open>https\<close> when
  the URL has none or an empty one; in every other case a non-empty \<^verbatim>\<open>Host\<close> value,
  trimmed, is split as for \<^verbatim>\<open>CONNECT\<close> with port \<^verbatim>\<open>80\<close> when it cannot be split, and
  an empty one gives the empty host with port \<^verbatim>\<open>80\<close>.
\<close>

lemma resolve_cases:
  "resolve ''CONNECT'' uri hh = (case SplitHostPort uri of Inr hp \<Rightarrow> hp | Inl e \<Rightarrow> (uri, ''443''))
   \<and> (CHR '':'' \<notin> set uri \<longrightarrow> resolve ''CONNECT'' uri hh = (uri, ''443''))
   \<and> (plain h \<and> plain p \<longrightarrow> resolve ''CONNECT'' (h @ '':'' @ p) hh = (h, p))
   \<and> (method \<noteq> ''CONNECT'' \<longrightarrow>
        (HasPrefix uri ''http://'' \<and> url_Parse uri = Some u \<longrightarrow>
           resolve method uri hh = (Hostname u, if Port u = [] then ''80'' else Port u))
      \<and> (HasPrefix uri ''https://'' \<and> url_Parse uri = Some u \<longrightarrow>
           resolve method uri hh = (Hostname u, if Port u = [] then ''443'' else Port u))
      \<and> ((\<not> HasPrefix uri ''http://'' \<and> \<not> HasPrefix uri ''https://'') \<or> url_Parse uri = None \<longrightarrow>
           resolve method uri hh =
             (if hh \<noteq> []
              then (case SplitHostPort (TrimSpace hh) of
                      Inr hp \<Rightarrow> hp
                    | Inl e \<Rightarrow> (TrimSpace hh, ''80''))
              else ([], ''80''))))"
proof -
  have connect: "resolve ''CONNECT'' uri hh =
      (case SplitHostPort uri of Inr hp \<Rightarrow> hp | Inl e \<Rightarrow> (uri, ''443''))" for uri
    by (simp add: resolve_def parseHostPort_def split: sum.splits)
  have no_port: "resolve ''CONNECT'' uri hh = (uri, ''443'')" if "CHR '':'' \<notin> set uri"
    using that by (simp add: connect SplitHostPort_no_colon)
  have with_port: "resolve ''CONNECT'' (h @ '':'' @ p) hh = (h, p)" if "plain h" "plain p"
    using that by (simp add: connect SplitHostPort_plain)
  have http: "resolve method uri hh = (Hostname u, if Port u = [] then ''80'' else Port u)"
    if "method \<noteq> ''CONNECT''" "HasPrefix uri ''http://''" "url_Parse uri = Some u"
    using that url_Parse_Scheme_http [OF that(2,3)]
    by (simp add: resolve_def extractHostFromURI_def)
  have https: "resolve method uri hh = (Hostname u, if Port u = [] then ''443'' else Port u)"
    if "method \<noteq> ''CONNECT''" "HasPrefix uri ''https://''" "url_Parse uri = Some u"
    using that url_Parse_Scheme_https [OF that(2,3)]
    by (simp add: resolve_def extractHostFromURI_def)
  have fallback: "resolve method uri hh =
      (if hh \<noteq> []
       then (case SplitHostPort (TrimSpace hh) of Inr hp \<Rightarrow> hp | Inl e \<Rightarrow> (TrimSpace hh, ''80''))
       else ([], ''80''))"
    if "method \<noteq> ''CONNECT''"
      "(\<not> HasPrefix uri ''http://'' \<and> \<not> HasPrefix uri ''https://'') \<or> url_Parse uri = None"
    using that
    by (auto simp: resolve_def extractHostFromURI_def parseHostPort_def split: sum.splits)
  show ?thesis
    using connect no_port with_port http https fallback by blast
qed

text \<open>The examples of the specification, and the defaults.\<close>

lemma resolve_examples:
  "resolve ''CONNECT'' ''site.com:443'' [] = (''site.com'', ''443'')
   \<and> resolve ''CONNECT'' ''site.com'' [] = (''site.com'', ''443'')
   \<and> resolve ''GET'' ''http://site.com/p'' [] = (''site.com'', ''80'')
   \<and> resolve ''GET'' ''https://site.com/p'' [] = (''site.com'', ''443'')
   \<and> resolve ''GET'' ''/p'' ''site.com:8080'' = (''site.com'', ''8080'')
   \<and> resolve ''GET'' ''http://site.com:port/p'' ''other.com'' = (''other.com'', ''80'')
   \<and> resolve ''GET'' ''/p'' [] = ([], ''80'')"
proof -
  let ?u1 = "\<lparr>Scheme = ''http'', Opaque = [], Host = ''site.com'', Path = ''/p'',
    RawQuery = [], Fragment = []\<rparr>"
  let ?u2 = "\<lparr>Scheme = ''https'', Opaque = [], Host = ''site.com'', Path = ''/p'',
    RawQuery = [], Fragment = []\<rparr>"
  have m: "''GET'' \<noteq> ''CONNECT''" by simp
  have pl: "plain ''site.com''" "plain ''443''" by (simp_all add: plain_def)
  have nc: "CHR '':'' \<notin> set ''site.com''" by simp
  have p1: "HasPrefix ''http://site.com/p'' ''http://''"
      "HasPrefix ''https://site.com/p'' ''https://''"
      "\<not> HasPrefix ''/p'' ''http://''" "\<not> HasPrefix ''/p'' ''https://''"
    by (simp_all add: HasPrefix_def)
  have u: "url_Parse ''http://site.com/p'' = Some ?u1"
      "url_Parse ''https://site.com/p'' = Some ?u2"
    by code_simp+
  have hp: "Hostname ?u1 = ''site.com''" "Port ?u1 = []"
      "Hostname ?u2 = ''site.com''" "Port ?u2 = []"
    by code_simp+
  have t: "TrimSpace ''site.com:8080'' = ''site.com:8080''" by code_simp
  have s: "SplitHostPort ''site.com:8080'' = Inr (''site.com'', ''8080'')" by code_simp
  note r1 = resolve_cases [of "''site.com''" "[]" "''site.com''" "''443''" "''GET''" ?u1]
  note r2 = resolve_cases [of "''http://site.com/p''" "[]" "[]" "[]" "''GET''" ?u1]
  note r3 = resolve_cases [of "''https://site.com/p''" "[]" "[]" "[]" "''GET''" ?u2]
  note r4 = resolve_cases [of "''/p''" "''site.com:8080''" "[]" "[]" "''GET''" ?u1]
  note r5 = resolve_cases [of "''/p''" "[]" "[]" "[]" "''GET''" ?u1]
  have "resolve ''CONNECT'' (''site.com'' @ '':'' @ ''443'') [] = (''site.com'', ''443'')"
    using r1 pl by blast
  then have c1: "resolve ''CONNECT'' ''site.com:443'' [] = (''site.com'', ''443'')"
    by simp
  have c2: "resolve ''CONNECT'' ''site.com'' [] = (''site.com'', ''443'')"
    using r1 nc by blast
  have "resolve ''GET'' ''http://site.com/p'' [] =
      (Hostname ?u1, if Port ?u1 = [] then ''80'' else Port ?u1)"
    using r2 m p1 u by blast
  then have c3: "resolve ''GET'' ''http://site.com/p'' [] = (''site.com'', ''80'')"
    by (simp add: hp)
  have "resolve ''GET'' ''https://site.com/p'' [] =
      (Hostname ?u2, if Port ?u2 = [] then ''443'' else Port ?u2)"
    using r3 m p1 u by blast
  then have c4: "resolve ''GET'' ''https://site.com/p'' [] = (''site.com'', ''443'')"
    by (simp add: hp)
  have "resolve ''GET'' ''/p'' ''site.com:8080'' =
      (if ''site.com:8080'' \<noteq> []
       then (case SplitHostPort (TrimSpace ''site.com:8080'') of
               Inr hp \<Rightarrow> hp
             | Inl e \<Rightarrow> (TrimSpace ''site.com:8080'', ''80''))
       else ([], ''80''))"
    using r4 m p1 by blast
  then have c5: "resolve ''GET'' ''/p'' ''site.com:8080'' = (''site.com'', ''8080'')"
    by (simp add: t s)
  have "resolve ''GET'' ''/p'' [] =
      (if ([] :: string) \<noteq> []
       then (case SplitHostPort (TrimSpace []) of
               Inr hp \<Rightarrow> hp
             | Inl e \<Rightarrow> (TrimSpace [], ''80''))
       else ([], ''80''))"
    using r5 m p1 by blast
  then have c6: "resolve ''GET'' ''/p'' [] = ([], ''80'')"
    by simp
  have rejected: "url_Parse ''http://site.com:port/p'' = None"
    and t7: "TrimSpace ''other.com'' = ''other.com''"
    and s7: "SplitHostPort ''other.com'' = Inl MissingPort"
    by code_simp+
  have "resolve ''GET'' ''http://site.com:port/p'' ''other.com'' =
      (if ''other.com'' \<noteq> []
       then (case SplitHostPort (TrimSpace ''other.com'') of
               Inr hp \<Rightarrow> hp
             | Inl e \<Rightarrow> (TrimSpace ''other.com'', ''80''))
       else ([], ''80''))"
    using resolve_cases [of "''http://site.com:port/p''" "''other.com''" "[]" "[]" "''GET''" ?u1]
      m rejected
    by blast
  then have c7: "resolve ''GET'' ''http://site.com:port/p'' ''other.com'' = (''other.com'', ''80'')"
    by (simp add: t7 s7)
  show ?thesis
    using c1 c2 c3 c4 c5 c6 c7 by simp
qed


text \<open>
  The cases of \<^verbatim>\<open>cleanRequestURI\<close>. For a URI that begins with \<^verbatim>\<open>http://\<close> or
  \<^verbatim>\<open>https://\<close> and parses, the result is the field \<^verbatim>\<open>Path\<close> of the parsed URL, which
  is the path with its percent-escapes decoded (\<^verbatim>\<open>/\<close> when it is empty), followed by
  \<^verbatim>\<open>?\<close> and the raw query when the query is not empty. Every other URI is returned
  unchanged; a URI in origin form (one that begins with \<^verbatim>\<open>/\<close>) is among them.
\<close>

lemma cleanRequestURI_cases:
  "((HasPrefix uri ''http://'' \<or> HasPrefix uri ''https://'') \<and> url_Parse uri = Some u \<longrightarrow>
      cleanRequestURI uri =
        (if Path u = [] then ''/'' else Path u)
        @ (if RawQuery u \<noteq> [] then ''?'' @ RawQuery u else []))
   \<and> (\<not> ((HasPrefix uri ''http://'' \<or> HasPrefix uri ''https://'') \<and> url_Parse uri \<noteq> None) \<longrightarrow>
      cleanRequestURI uri = uri)
   \<and> (HasPrefix uri ''/'' \<longrightarrow> cleanRequestURI uri = uri)"
proof -
  have origin: "\<not> HasPrefix uri ''http://'' \<and> \<not> HasPrefix uri ''https://''"
    if "HasPrefix uri ''/''"
    using that by (cases uri) (auto simp: HasPrefix_def)
  show ?thesis
    using origin by (auto simp: cleanRequestURI_def Let_def)
qed

text \<open>The examples of the specification.\<close>

lemma cleanRequestURI_examples:
  "cleanRequestURI ''http://a.com/x?y=1'' = ''/x?y=1''
   \<and> cleanRequestURI ''http://a.com'' = ''/''
   \<and> cleanRequestURI ''/already/relative'' = ''/already/relative''
   \<and> cleanRequestURI ''http://a.com:port/x'' = ''http://a.com:port/x''"
proof -
  let ?u1 = "\<lparr>Scheme = ''http'', Opaque = [], Host = ''a.com'', Path = ''/x'',
    RawQuery = ''y=1'', Fragment = []\<rparr>"
  let ?u2 = "\<lparr>Scheme = ''http'', Opaque = [], Host = ''a.com'', Path = [],
    RawQuery = [], Fragment = []\<rparr>"
  have p: "HasPrefix ''http://a.com/x?y=1'' ''http://''" "HasPrefix ''http://a.com'' ''http://''"
      "HasPrefix ''/already/relative'' ''/''"
    by (simp_all add: HasPrefix_def)
  have u: "url_Parse ''http://a.com/x?y=1'' = Some ?u1" "url_Parse ''http://a.com'' = Some ?u2"
    by code_simp+
  have "cleanRequestURI ''http://a.com/x?y=1'' =
      (if Path ?u1 = [] then ''/'' else Path ?u1)
      @ (if RawQuery ?u1 \<noteq> [] then ''?'' @ RawQuery ?u1 else [])"
    using cleanRequestURI_cases [of "''http://a.com/x?y=1''" ?u1] p u by blast
  then have c1: "cleanRequestURI ''http://a.com/x?y=1'' = ''/x?y=1''"
    by simp
  have "cleanRequestURI ''http://a.com'' =
      (if Path ?u2 = [] then ''/'' else Path ?u2)
      @ (if RawQuery ?u2 \<noteq> [] then ''?'' @ RawQuery ?u2 else [])"
    using cleanRequestURI_cases [of "''http://a.com''" ?u2] p u by blast
  then have c2: "cleanRequestURI ''http://a.com'' = ''/''"
    by simp
  have c3: "cleanRequestURI ''/already/relative'' = ''/already/relative''"
    using cleanRequestURI_cases [of "''/already/relative''" ?u2] p by blast
  have rejected: "url_Parse ''http://a.com:port/x'' = None"
    by code_simp
  have c4: "cleanRequestURI ''http://a.com:port/x'' = ''http://a.com:port/x''"
    using cleanRequestURI_cases [of "''http://a.com:port/x''" ?u2] rejected by blast
  show ?thesis
    using c1 c2 c3 c4 by simp
qed

subsection \<open>Absolute URIs of the usual form\<close>

text \<open>
  The pieces of such a URI: a host name of letters, digits, hyphens and dots; a path
  that is empty or begins with \<^verbatim>\<open>/\<close>, without control bytes, \<^verbatim>\<open>?\<close>, \<^verbatim>\<open>#\<close> or
  \<^verbatim>\<open>%\<close>; a query without control bytes or \<^verbatim>\<open>#\<close>.
\<close>

definition host_name :: "string \<Rightarrow> bool" where
  "host_name h \<longleftrightarrow> list_all (\<lambda>c. is_alpha c \<or> is_digit c \<or> c = CHR ''-'' \<or> c = CHR ''.'') h"

definition path_text :: "string \<Rightarrow> bool" where
  "path_text p \<longleftrightarrow>
     (p = [] \<or> HasPrefix p ''/'') \<and> \<not> stringContainsCTLByte p
     \<and> CHR ''?'' \<notin> set p \<and> CHR ''#'' \<notin> set p \<and> CHR ''%'' \<notin> set p"

definition query_text :: "string \<Rightarrow> bool" where
  "query_text q \<longleftrightarrow> \<not> stringContainsCTLByte q \<and> CHR ''#'' \<notin> set q"

lemma Cut_absent: "c \<notin> set s \<Longrightarrow> Cut s c = (s, [], False)"
  by (induction s) auto

lemma Cut_first: "c \<notin> set a \<Longrightarrow> Cut (a @ c # b) c = (a, b, True)"
  by (induction a) auto

lemma IndexByte_first: "c \<notin> set a \<Longrightarrow> IndexByte (a @ c # b) c = Some (length a)"
  by (induction a) auto

lemma host_name_bytes:
  assumes "host_name h" "c \<in> set h"
  shows "is_alpha c \<or> is_digit c \<or> c = CHR ''-'' \<or> c = CHR ''.''"
  using assms by (auto simp: host_name_def list_all_iff)

lemma host_name_notin:
  assumes "host_name h"
    and "\<not> (is_alpha x \<or> is_digit x \<or> x = CHR ''-'' \<or> x = CHR ''.'')"
  shows "x \<notin> set h"
  using host_name_bytes [OF assms(1)] assms(2) by blast

lemma host_name_marks:
  assumes "host_name h"
  shows "CHR ''%'' \<notin> set h" "CHR ''@'' \<notin> set h" "CHR ''['' \<notin> set h" "CHR '']'' \<notin> set h"
    "CHR '':'' \<notin> set h" "CHR ''/'' \<notin> set h" "CHR ''?'' \<notin> set h" "CHR ''#'' \<notin> set h"
  by (rule host_name_notin [OF assms], simp add: is_alpha_def is_digit_def)+

lemma host_byte_allowed:
  assumes "is_alpha c \<or> is_digit c \<or> c = CHR ''-'' \<or> c = CHR ''.''"
  shows "\<not> shouldEscape_host c"
  using assms unfolding shouldEscape_host_def by (elim disjE) simp_all


lemma unescape_same:
  assumes "CHR ''%'' \<notin> set s"
    and "\<forall>c \<in> set s. \<not> shouldEscape_host c"
  shows "unescape mode s = Some s"
  using assms by (induction s) auto

lemma unescape_path_same: "CHR ''%'' \<notin> set s \<Longrightarrow> unescape EncodePath s = Some s"
  by (induction s) auto

lemma digit_code: "is_digit c \<Longrightarrow> (48 :: nat) \<le> of_char c \<and> (of_char c :: nat) \<le> 57"
  by (simp add: is_digit_def Let_def)

lemma digit_allowed: "is_digit c \<Longrightarrow> \<not> shouldEscape_host c"
  by (simp add: shouldEscape_host_def)

lemma digits_notin:
  assumes "list_all is_digit p" and "\<not> is_digit x"
  shows "x \<notin> set p"
  using assms by (auto simp: list_all_iff)

lemma digits_marks:
  assumes "list_all is_digit p"
  shows "CHR ''%'' \<notin> set p" "CHR ''@'' \<notin> set p" "CHR ''['' \<notin> set p" "CHR '']'' \<notin> set p"
    "CHR '':'' \<notin> set p" "CHR ''/'' \<notin> set p" "CHR ''?'' \<notin> set p" "CHR ''#'' \<notin> set p"
  by (rule digits_notin [OF assms], simp add: is_digit_def)+

text \<open>An authority of the usual form: a host name, or a host name, a colon and digits.\<close>

definition authority_text :: "string \<Rightarrow> string \<Rightarrow> string \<Rightarrow> bool" where
  "authority_text a h p \<longleftrightarrow>
     host_name h \<and> list_all is_digit p \<and> (a = h \<and> p = [] \<or> a = h @ CHR '':'' # p)"

lemma authority_marks:
  assumes "authority_text a h p"
  shows "CHR ''%'' \<notin> set a" "CHR ''@'' \<notin> set a" "CHR ''['' \<notin> set a"
    "CHR ''/'' \<notin> set a" "CHR ''?'' \<notin> set a" "CHR ''#'' \<notin> set a"
  using assms host_name_marks [of h] digits_marks [of p]
  by (auto simp: authority_text_def)

lemma authority_allowed:
  assumes "authority_text a h p"
  shows "\<forall>c \<in> set a. \<not> shouldEscape_host c"
proof
  fix c assume "c \<in> set a"
  then have "c \<in> set h \<or> c = CHR '':'' \<or> c \<in> set p"
    using assms by (auto simp: authority_text_def)
  then show "\<not> shouldEscape_host c"
  proof (elim disjE)
    assume "c \<in> set h"
    then show ?thesis
      using assms host_name_bytes [of h c] host_byte_allowed [of c]
      by (simp add: authority_text_def)
  next
    assume "c = CHR '':''"
    then show ?thesis by (simp add: shouldEscape_host_def)
  next
    assume "c \<in> set p"
    then show ?thesis
      using assms digit_allowed [of c] by (simp add: authority_text_def list_all_iff)
  qed
qed

lemma parseHost_authority:
  assumes "authority_text a h p"
  shows "parseHost a = Some a"
proof -
  have u: "unescape EncodeHost a = Some a"
    using authority_marks(1) [OF assms] authority_allowed [OF assms] by (rule unescape_same)
  have b: "\<not> HasPrefix a ''[''"
    using authority_marks(3) [OF assms] by (cases a) (auto simp: HasPrefix_def)
  have hn: "host_name h" and pd: "list_all is_digit p"
    using assms by (simp_all add: authority_text_def)
  consider "a = h" | "a = h @ CHR '':'' # p"
    using assms by (auto simp: authority_text_def)
  then show ?thesis
  proof cases
    case 1
    then have "LastIndexByte a (CHR '':'') = None"
      using host_name_marks(5) [OF hn] by (simp add: LastIndexByte_None_iff)
    then show ?thesis
      using b u by (simp add: parseHost_def)
  next
    case 2
    then have i: "LastIndexByte a (CHR '':'') = Some (length h)"
      using digits_marks(5) [OF pd] by (simp add: LastIndexByte_last)
    have "validOptionalPort (drop (length h) a)"
      using 2 pd by (simp add: validOptionalPort_def)
    then show ?thesis
      using b u i by (simp add: parseHost_def)
  qed
qed

lemma parseAuthority_authority:
  assumes "authority_text a h p"
  shows "parseAuthority a = Some a"
  using authority_marks(2) [OF assms] parseHost_authority [OF assms]
  by (simp add: parseAuthority_def LastIndexByte_None_iff [THEN iffD2])


text \<open>The query as it stands in the URI: nothing, or \<^verbatim>\<open>?\<close> and the query.\<close>

definition query_part :: "string \<Rightarrow> string" where
  "query_part q = (if q = [] then [] else CHR ''?'' # q)"

lemma CTL_append:
  "stringContainsCTLByte (a @ b) \<longleftrightarrow> stringContainsCTLByte a \<or> stringContainsCTLByte b"
  by (simp add: stringContainsCTLByte_def)

lemma CTL_Cons:
  "stringContainsCTLByte (c # s) \<longleftrightarrow>
     (of_char c :: nat) < 32 \<or> of_char c = (127 :: nat) \<or> stringContainsCTLByte s"
  by (simp add: stringContainsCTLByte_def)

lemma host_byte_code:
  assumes "is_alpha c \<or> is_digit c \<or> c = CHR ''-'' \<or> c = CHR ''.''"
  shows "(45 :: nat) \<le> of_char c \<and> (of_char c :: nat) \<le> 122"
  using assms unfolding is_alpha_def is_digit_def Let_def
  by (elim disjE) simp_all

lemma host_name_no_CTL: "host_name h \<Longrightarrow> \<not> stringContainsCTLByte h"
proof (induction h)
  case Nil
  then show ?case by (simp add: stringContainsCTLByte_def)
next
  case (Cons c h)
  then have "host_name h" and c: "is_alpha c \<or> is_digit c \<or> c = CHR ''-'' \<or> c = CHR ''.''"
    by (simp_all add: host_name_def)
  with Cons.IH host_byte_code [OF c] show ?case
    by (simp add: CTL_Cons)
qed

lemma digits_no_CTL: "list_all is_digit p \<Longrightarrow> \<not> stringContainsCTLByte p"
proof (induction p)
  case Nil
  then show ?case by (simp add: stringContainsCTLByte_def)
next
  case (Cons c p)
  then show ?case
    using digit_code [of c] by (simp add: CTL_Cons)
qed

lemma authority_no_CTL:
  assumes "authority_text a h p"
  shows "\<not> stringContainsCTLByte a"
  using assms host_name_no_CTL [of h] digits_no_CTL [of p]
  by (auto simp: authority_text_def CTL_append CTL_Cons)

lemma query_part_facts:
  assumes "query_text q"
  shows "\<not> stringContainsCTLByte (query_part q)" "CHR ''#'' \<notin> set (query_part q)"
  using assms by (auto simp: query_text_def query_part_def CTL_Cons)

lemma Cut_query:
  assumes "CHR ''?'' \<notin> set r"
  shows "Cut (r @ query_part q) (CHR ''?'') = (r, q, q \<noteq> [])"
  using assms by (simp add: query_part_def Cut_absent Cut_first)

lemma IndexByte_path:
  assumes "CHR ''/'' \<notin> set a" "path = [] \<or> HasPrefix path ''/''"
  shows "(case IndexByte (a @ path) (CHR ''/'') of
            None \<Rightarrow> (a @ path, [])
          | Some i \<Rightarrow> (take i (a @ path), drop i (a @ path))) = (a, path)"
proof (cases "path = []")
  case True
  then show ?thesis
    using assms(1) by (simp add: IndexByte_None_iff [THEN iffD2])
next
  case False
  then obtain t where "path = CHR ''/'' # t"
    using assms(2) by (cases path) (auto simp: HasPrefix_def)
  then show ?thesis
    using assms(1) by (simp add: IndexByte_first)
qed

lemma parse_usual:
  assumes a: "authority_text a h p" and p: "path_text path" and q: "query_text q"
    and s: "getScheme (scheme @ ''://'' @ a @ path @ query_part q)
              = Some (scheme, ''//'' @ a @ path @ query_part q)"
      "ToLower scheme = scheme" "scheme \<noteq> []" "\<not> stringContainsCTLByte scheme"
      "scheme @ ''://'' @ a @ path @ query_part q \<noteq> ''*''"
  shows "parse (scheme @ ''://'' @ a @ path @ query_part q) =
     Some \<lparr>Scheme = scheme, Opaque = [], Host = a, Path = path, RawQuery = q, Fragment = []\<rparr>"
proof -
  let ?raw = "scheme @ ''://'' @ a @ path @ query_part q"
  have ctl: "\<not> stringContainsCTLByte ?raw"
    using authority_no_CTL [OF a] p query_part_facts(1) [OF q] s(4)
    by (simp add: CTL_append CTL_Cons path_text_def)
  have "CHR ''?'' \<notin> set (''//'' @ a @ path)"
    using authority_marks(5) [OF a] p by (simp add: path_text_def)
  then have cut: "Cut ((''//'' @ a @ path) @ query_part q) (CHR ''?'') = (''//'' @ a @ path, q, q \<noteq> [])"
    by (rule Cut_query)
  have ix: "(case IndexByte (a @ path) (CHR ''/'') of
            None \<Rightarrow> (a @ path, [])
          | Some i \<Rightarrow> (take i (a @ path), drop i (a @ path))) = (a, path)"
    using authority_marks(4) [OF a] p by (intro IndexByte_path) (simp_all add: path_text_def)
  have up: "unescape EncodePath path = Some path"
    using p by (simp add: unescape_path_same path_text_def)
  show ?thesis
    unfolding parse_def
    using ctl s cut ix up parseAuthority_authority [OF a]
    by (simp add: HasPrefix_def Let_def)
qed


lemma url_Parse_usual:
  assumes "scheme = ''http'' \<or> scheme = ''https''"
    and a: "authority_text a h p" and p: "path_text path" and q: "query_text q"
  shows "url_Parse (scheme @ ''://'' @ a @ path @ query_part q) =
     Some \<lparr>Scheme = scheme, Opaque = [], Host = a, Path = path, RawQuery = q, Fragment = []\<rparr>"
proof -
  let ?rest = "a @ path @ query_part q"
  let ?raw = "scheme @ ''://'' @ ?rest"
  have g: "getScheme ?raw = Some (scheme, ''//'' @ ?rest)"
    using assms(1) by (auto simp: getScheme_def is_alpha_def is_digit_def)
  have l: "ToLower scheme = scheme"
    using assms(1) by (auto simp: ToLower_def lower_byte_def)
  have n: "scheme \<noteq> []" "\<not> stringContainsCTLByte scheme" "?raw \<noteq> ''*''"
    using assms(1) by (auto simp: stringContainsCTLByte_def)
  have "CHR ''#'' \<notin> set ?raw"
    using assms(1) authority_marks(6) [OF a] p query_part_facts(2) [OF q]
    by (auto simp: path_text_def)
  then have "Cut ?raw (CHR ''#'') = (?raw, [], False)"
    by (rule Cut_absent)
  then show ?thesis
    using parse_usual [OF a p q g l n] by (simp add: url_Parse_def)
qed

lemma url_splitHostPort_authority:
  assumes "authority_text a h p"
  shows "url_splitHostPort a = (h, p)"
proof -
  have hn: "host_name h" and pd: "list_all is_digit p"
    using assms by (simp_all add: authority_text_def)
  have b: "\<not> HasPrefix h ''[''"
    using host_name_marks(3) [OF hn] by (cases h) (auto simp: HasPrefix_def)
  consider "a = h" "p = []" | "a = h @ CHR '':'' # p"
    using assms by (auto simp: authority_text_def)
  then show ?thesis
  proof cases
    case 1
    then have "LastIndexByte a (CHR '':'') = None"
      using host_name_marks(5) [OF hn] by (simp add: LastIndexByte_None_iff)
    then show ?thesis
      using 1 b by (simp add: url_splitHostPort_def)
  next
    case 2
    then have i: "LastIndexByte a (CHR '':'') = Some (length h)"
      using digits_marks(5) [OF pd] by (simp add: LastIndexByte_last)
    have "validOptionalPort (drop (length h) a)"
      using 2 pd by (simp add: validOptionalPort_def)
    then show ?thesis
      using 2 b i by (simp add: url_splitHostPort_def)
  qed
qed

text \<open>
  The target and the forwarded URI of a request for an absolute URI of the usual form:
  \<^verbatim>\<open>http://\<close> or \<^verbatim>\<open>https://\<close>, a host name, an optional colon and port digits, an
  optional path that begins with \<^verbatim>\<open>/\<close> and has no escape, and an optional query.
\<close>

lemma resolve_usual:
  assumes "method \<noteq> ''CONNECT''" and "scheme = ''http'' \<or> scheme = ''https''"
    and "authority_text a h p" and "path_text path" and "query_text q"
  shows "resolve method (scheme @ ''://'' @ a @ path @ query_part q) hostHeader =
     (h, if p = [] then (if scheme = ''https'' then ''443'' else ''80'') else p)"
proof -
  have "HasPrefix (scheme @ ''://'' @ a @ path @ query_part q) ''http://''
      \<or> HasPrefix (scheme @ ''://'' @ a @ path @ query_part q) ''https://''"
    using assms(2) by (auto simp: HasPrefix_def)
  then show ?thesis
    using assms(1) url_Parse_usual [OF assms(2-5)] url_splitHostPort_authority [OF assms(3)]
    by (simp add: resolve_def extractHostFromURI_def Hostname_def Port_def)
qed

lemma cleanRequestURI_usual:
  assumes "scheme = ''http'' \<or> scheme = ''https''"
    and "authority_text a h p" and "path_text path" and "query_text q"
  shows "cleanRequestURI (scheme @ ''://'' @ a @ path @ query_part q) =
     (if path = [] then ''/'' else path) @ query_part q"
proof -
  have "HasPrefix (scheme @ ''://'' @ a @ path @ query_part q) ''http://''
      \<or> HasPrefix (scheme @ ''://'' @ a @ path @ query_part q) ''https://''"
    using assms(1) by (auto simp: HasPrefix_def)
  then show ?thesis
    using url_Parse_usual [OF assms]
    by (simp add: cleanRequestURI_def query_part_def)
qed

text \<open>For instance:\<close>

lemma usual_example:
  "resolve ''GET'' ''http://site.com:8080/a/b?x=1&y=2'' [] = (''site.com'', ''8080'')
   \<and> cleanRequestURI ''http://site.com:8080/a/b?x=1&y=2'' = ''/a/b?x=1&y=2''"
proof -
  have a: "authority_text ''site.com:8080'' ''site.com'' ''8080''"
    by (simp add: authority_text_def host_name_def is_alpha_def is_digit_def)
  have p: "path_text ''/a/b''"
    by (simp add: path_text_def HasPrefix_def stringContainsCTLByte_def)
  have q: "query_text ''x=1&y=2''"
    by (simp add: query_text_def stringContainsCTLByte_def)
  have m: "''GET'' \<noteq> ''CONNECT''" by simp
  have s: "''http'' = ''http'' \<or> ''http'' = ''https''" by simp
  show ?thesis
    using resolve_usual [OF m s a p q, of "[]"] cleanRequestURI_usual [OF s a p q]
    by (simp add: query_part_def)
qed

section \<open>Properties of the connection handler\<close>

text \<open>
  What a list of events shows of each kind: the byte strings written to the client and
  to the target, and the addresses dialled.
\<close>

fun client_writes :: "event list \<Rightarrow> string list" where
  "client_writes [] = []"
| "client_writes (ClientWrite s # es) = s # client_writes es"
| "client_writes (e # es) = client_writes es"

fun target_writes :: "event list \<Rightarrow> string list" where
  "target_writes [] = []"
| "target_writes (TargetWrite s # es) = s # target_writes es"
| "target_writes (e # es) = target_writes es"

fun dials :: "event list \<Rightarrow> string list" where
  "dials [] = []"
| "dials (DialTimeout a # es) = a # dials es"
| "dials (e # es) = dials es"

text \<open>
  The response that \<^verbatim>\<open>sendError\<close> writes for a status line such as
  \<^verbatim>\<open>400 Bad Request\<close>.
\<close>

definition error_response :: "string \<Rightarrow> string" where
  "error_response line =
     ''HTTP/1.1 '' @ line @ CRLF @ ''Content-Type: text/plain'' @ CRLF
     @ ''Connection: close'' @ CRLF @ CRLF @ line @ [LF]"

lemma status_codes:
  "Sprintf_d 400 = ''400''" "Sprintf_d 403 = ''403''" "Sprintf_d 502 = ''502''"
  by code_simp+

lemma sendError_400: "sendError 400 ''Bad Request'' = [ClientWrite (error_response ''400 Bad Request'')]"
  and sendError_403: "sendError 403 ''Forbidden'' = [ClientWrite (error_response ''403 Forbidden'')]"
  and sendError_502: "sendError 502 ''Bad Gateway'' = [ClientWrite (error_response ''502 Bad Gateway'')]"
  by (simp_all add: sendError_def error_response_def status_codes)

text \<open>
  A client that sends \<open>input\<close> and then closes its side, with every target reachable
  and every write succeeding.
\<close>

definition example_env :: "string \<Rightarrow> conn_env" where
  "example_env input =
     \<lparr>client_input = input, remote_addr = ''192.0.2.7:50000'', dial_error = (\<lambda>addr. None),
      target_write_ok = (\<lambda>k. True), client_write_ok = True\<rparr>"

text \<open>
  C2 (as amended). When the request line is read and has fewer than three fields, the
  handler writes one log record tagged \<^verbatim>\<open>ERROR\<close>, sends one
  \<^verbatim>\<open>400 Bad Request\<close> response, closes the client connection and dials nothing.
  When the stream ends before a complete request line is read, the handler writes one
  log record tagged \<^verbatim>\<open>ERROR\<close>, sends no response, closes the client connection and
  dials nothing.
\<close>

theorem malformed_request:
  "(ReadString (client_input env) LF = Some (requestLine, rest)
      \<and> length (Fields requestLine) < 3 \<longrightarrow>
      HandleConnection env blocklist =
        [LogWrite \<lparr>clientAddr = remote_addr env, targetHost = [], log_method = [],
                    status = ''ERROR'', details = ''Invalid request line''\<rparr>,
         ClientWrite (error_response ''400 Bad Request''),
         CloseClient])
   \<and> (ReadString (client_input env) LF = None \<longrightarrow>
      HandleConnection env blocklist =
        [LogWrite \<lparr>clientAddr = remote_addr env, targetHost = [], log_method = [],
                    status = ''ERROR'', details = ''Failed to read request''\<rparr>,
         CloseClient])"
proof (intro conjI impI)
  assume "ReadString (client_input env) LF = Some (requestLine, rest)
      \<and> length (Fields requestLine) < 3"
  then have line: "ReadString (client_input env) LF = Some (requestLine, rest)"
    and few: "length (Fields requestLine) < 3"
    by simp_all
  have "HandleConnection env blocklist =
      (logConnection (remote_addr env) [] [] ''ERROR'' ''Invalid request line''
       @ sendError 400 ''Bad Request'') @ [CloseClient]"
    using few by (simp add: HandleConnection_def line)
  then show "HandleConnection env blocklist =
      [LogWrite \<lparr>clientAddr = remote_addr env, targetHost = [], log_method = [],
                  status = ''ERROR'', details = ''Invalid request line''\<rparr>,
       ClientWrite (error_response ''400 Bad Request''),
       CloseClient]"
    by (simp add: logConnection_def sendError_400)
next
  assume closed: "ReadString (client_input env) LF = None"
  have "HandleConnection env blocklist =
      logConnection (remote_addr env) [] [] ''ERROR'' ''Failed to read request'' @ [CloseClient]"
    by (simp add: HandleConnection_def closed)
  then show "HandleConnection env blocklist =
      [LogWrite \<lparr>clientAddr = remote_addr env, targetHost = [], log_method = [],
                  status = ''ERROR'', details = ''Failed to read request''\<rparr>,
       CloseClient]"
    by (simp add: logConnection_def)
qed

text \<open>
  C2 as stated fails: a client that sends \<^verbatim>\<open>GET /\<close> and closes its side before the
  end of the line gets no response at all.
\<close>

theorem malformed_request_counterexample:
  "ReadString (client_input (example_env ''GET /'')) LF = None
   \<and> client_writes (HandleConnection (example_env ''GET /'') Map.empty) = []"
proof -
  have r: "ReadString (client_input (example_env ''GET /'')) LF = None"
    by (simp add: example_env_def)
  then show ?thesis
    by (simp add: HandleConnection_def logConnection_def)
qed

text \<open>The two cases of the amended C2 at concrete requests.\<close>

theorem malformed_request_witness:
  "HandleConnection (example_env (''INVALID REQUEST'' @ CRLF)) Map.empty =
     [LogWrite \<lparr>clientAddr = ''192.0.2.7:50000'', targetHost = [], log_method = [],
                 status = ''ERROR'', details = ''Invalid request line''\<rparr>,
      ClientWrite (error_response ''400 Bad Request''),
      CloseClient]
   \<and> HandleConnection (example_env ''GET /'') Map.empty =
     [LogWrite \<lparr>clientAddr = ''192.0.2.7:50000'', targetHost = [], log_method = [],
                 status = ''ERROR'', details = ''Failed to read request''\<rparr>,
      CloseClient]"
proof -
  have r1: "ReadString (client_input (example_env (''INVALID REQUEST'' @ CRLF))) LF
      = Some (''INVALID REQUEST'' @ CRLF, [])"
    by (simp add: example_env_def CRLF_def)
  have f1: "length (Fields (''INVALID REQUEST'' @ CRLF)) < 3"
    by code_simp
  have r2: "ReadString (client_input (example_env ''GET /'')) LF = None"
    by (simp add: example_env_def)
  have a: "remote_addr (example_env x) = ''192.0.2.7:50000''" for x
    by (simp add: example_env_def)
  show ?thesis
    using malformed_request [of "example_env (''INVALID REQUEST'' @ CRLF)"
        "''INVALID REQUEST'' @ CRLF" "[]" Map.empty]
      malformed_request [of "example_env ''GET /''" "[]" "[]" Map.empty]
      r1 f1 r2
    by (simp add: a)
qed


text \<open>
  A request whose line is read with at least three fields: what the handler does when
  the resolved host is blocked, and what it dials when the host is not.
\<close>

lemma handled_request:
  assumes "ReadString (client_input env) LF = Some (requestLine, rest)"
    and "3 \<le> length (Fields requestLine)"
    and "read_headers rest [] [] = (headers, hostHeader, body)"
    and "resolve (ToUpper (Fields requestLine ! 0)) (Fields requestLine ! 1) hostHeader
           = (host, port)"
  shows "(isBlocked host blocklist \<longrightarrow>
            HandleConnection env blocklist =
              [LogWrite \<lparr>clientAddr = remote_addr env, targetHost = host,
                          log_method = ToUpper (Fields requestLine ! 0),
                          status = ''BLOCKED'', details = ''Domain is blocked''\<rparr>,
               ClientWrite (error_response ''403 Forbidden''),
               CloseClient])
       \<and> (dials (HandleConnection env blocklist) \<noteq> [] \<longrightarrow> \<not> isBlocked host blocklist)
       \<and> (\<not> isBlocked host blocklist \<longrightarrow>
            dials (HandleConnection env blocklist) = [JoinHostPort host port])"
proof -
  have blocked: "HandleConnection env blocklist =
      [LogWrite \<lparr>clientAddr = remote_addr env, targetHost = host,
                  log_method = ToUpper (Fields requestLine ! 0),
                  status = ''BLOCKED'', details = ''Domain is blocked''\<rparr>,
       ClientWrite (error_response ''403 Forbidden''),
       CloseClient]" if "isBlocked host blocklist"
    using assms that
    by (simp add: HandleConnection_def Let_def logConnection_def sendError_403)
  have connect: "dials (handleHTTPS env host port) = [JoinHostPort host port]"
    by (simp add: handleHTTPS_def Let_def logConnection_def sendError_502
        split: option.splits)
  have dials_map: "dials (map TargetWrite hs @ es) = dials es" for hs es
    by (induction hs) auto
  have plain: "dials (handleHTTP env m u v headers body host port) = [JoinHostPort host port]"
    for m u v
    by (simp add: handleHTTP_def Let_def logConnection_def sendError_502 dials_map
        split: option.splits)
  have dials_snoc: "dials (es @ [CloseClient]) = dials es" for es
    by (induction es rule: dials.induct) auto
  have allowed: "dials (HandleConnection env blocklist) = [JoinHostPort host port]"
    if "\<not> isBlocked host blocklist"
    using assms that
    by (simp add: HandleConnection_def Let_def dials_snoc connect plain)
  show ?thesis
    using blocked allowed by auto
qed

text \<open>
  C5. A request whose line is read with at least three fields and whose resolved host
  is blocked gets one log record tagged \<^verbatim>\<open>BLOCKED\<close> and one \<^verbatim>\<open>403 Forbidden\<close>
  response, and nothing else happens before the client connection is closed: no
  target is dialled. A request whose host is not blocked has the resolved address
  dialled once. For every connection, if the handler dials at all, then a request was
  read, its resolved host has passed the blocklist check, and the one address dialled
  is the resolved one; this holds for \<^verbatim>\<open>CONNECT\<close> and for every other method.
\<close>

theorem blocked_request:
  "(ReadString (client_input env) LF = Some (requestLine, rest)
      \<and> 3 \<le> length (Fields requestLine)
      \<and> read_headers rest [] [] = (headers, hostHeader, body)
      \<and> resolve (ToUpper (Fields requestLine ! 0)) (Fields requestLine ! 1) hostHeader
            = (host, port)
      \<longrightarrow>
        (isBlocked host blocklist \<longrightarrow>
           HandleConnection env blocklist =
             [LogWrite \<lparr>clientAddr = remote_addr env, targetHost = host,
                         log_method = ToUpper (Fields requestLine ! 0),
                         status = ''BLOCKED'', details = ''Domain is blocked''\<rparr>,
              ClientWrite (error_response ''403 Forbidden''),
              CloseClient])
      \<and> (\<not> isBlocked host blocklist \<longrightarrow>
           dials (HandleConnection env blocklist) = [JoinHostPort host port]))
   \<and> (dials (HandleConnection env blocklist) \<noteq> [] \<longrightarrow>
        (\<exists>line rest' hs hh b h p.
           ReadString (client_input env) LF = Some (line, rest')
           \<and> 3 \<le> length (Fields line)
           \<and> read_headers rest' [] [] = (hs, hh, b)
           \<and> resolve (ToUpper (Fields line ! 0)) (Fields line ! 1) hh = (h, p)
           \<and> \<not> isBlocked h blocklist
           \<and> dials (HandleConnection env blocklist) = [JoinHostPort h p]))"
proof (intro conjI impI)
  assume parsed: "ReadString (client_input env) LF = Some (requestLine, rest)
      \<and> 3 \<le> length (Fields requestLine)
      \<and> read_headers rest [] [] = (headers, hostHeader, body)
      \<and> resolve (ToUpper (Fields requestLine ! 0)) (Fields requestLine ! 1) hostHeader
            = (host, port)"
  then have facts: "ReadString (client_input env) LF = Some (requestLine, rest)"
      "3 \<le> length (Fields requestLine)"
      "read_headers rest [] [] = (headers, hostHeader, body)"
      "resolve (ToUpper (Fields requestLine ! 0)) (Fields requestLine ! 1) hostHeader
         = (host, port)"
    by simp_all
  {
    assume "isBlocked host blocklist"
    then show "HandleConnection env blocklist =
        [LogWrite \<lparr>clientAddr = remote_addr env, targetHost = host,
                    log_method = ToUpper (Fields requestLine ! 0),
                    status = ''BLOCKED'', details = ''Domain is blocked''\<rparr>,
         ClientWrite (error_response ''403 Forbidden''),
         CloseClient]"
      using handled_request [OF facts, of blocklist] by blast
  }
  {
    assume "\<not> isBlocked host blocklist"
    then show "dials (HandleConnection env blocklist) = [JoinHostPort host port]"
      using handled_request [OF facts, of blocklist] by blast
  }
next
  assume dialled: "dials (HandleConnection env blocklist) \<noteq> []"
  show "\<exists>line rest' hs hh b h p.
      ReadString (client_input env) LF = Some (line, rest')
      \<and> 3 \<le> length (Fields line)
      \<and> read_headers rest' [] [] = (hs, hh, b)
      \<and> resolve (ToUpper (Fields line ! 0)) (Fields line ! 1) hh = (h, p)
      \<and> \<not> isBlocked h blocklist
      \<and> dials (HandleConnection env blocklist) = [JoinHostPort h p]"
  proof (cases "ReadString (client_input env) LF")
    case None
    then have "dials (HandleConnection env blocklist) = []"
      by (simp add: HandleConnection_def logConnection_def)
    with dialled show ?thesis by simp
  next
    case (Some lr)
    obtain line rest' where lr: "ReadString (client_input env) LF = Some (line, rest')"
      using Some by (cases lr) auto
    show ?thesis
    proof (cases "length (Fields line) < 3")
      case True
      then have "dials (HandleConnection env blocklist) = []"
        by (simp add: HandleConnection_def lr logConnection_def sendError_400)
      with dialled show ?thesis by simp
    next
      case False
      then have n: "3 \<le> length (Fields line)" by simp
      obtain hs hh b where h: "read_headers rest' [] [] = (hs, hh, b)"
        by (cases "read_headers rest' [] []") auto
      obtain h' p' where r: "resolve (ToUpper (Fields line ! 0)) (Fields line ! 1) hh = (h', p')"
        by (cases "resolve (ToUpper (Fields line ! 0)) (Fields line ! 1) hh") auto
      note request = handled_request [OF lr n h r, of blocklist]
      have allowed: "\<not> isBlocked h' blocklist"
        using request dialled by blast
      then have "dials (HandleConnection env blocklist) = [JoinHostPort h' p']"
        using request by blast
      with lr n h r allowed show ?thesis by blast
    qed
  qed
qed

text \<open>
  A blocked \<^verbatim>\<open>CONNECT\<close> request, a blocked plain request, and a \<^verbatim>\<open>CONNECT\<close>
  request that is let through.
\<close>

theorem blocked_request_witness:
  "HandleConnection (example_env (''CONNECT blocked.example:443 HTTP/1.1'' @ CRLF @ CRLF))
     [''blocked.example'' \<mapsto> True] =
     [LogWrite \<lparr>clientAddr = ''192.0.2.7:50000'', targetHost = ''blocked.example'',
                 log_method = ''CONNECT'', status = ''BLOCKED'',
                 details = ''Domain is blocked''\<rparr>,
      ClientWrite (error_response ''403 Forbidden''),
      CloseClient]
   \<and> HandleConnection
       (example_env (''get http://www.Blocked.Example/x HTTP/1.1'' @ CRLF
                     @ ''Host: other.example'' @ CRLF @ CRLF))
       [''blocked.example'' \<mapsto> True] =
     [LogWrite \<lparr>clientAddr = ''192.0.2.7:50000'', targetHost = ''www.Blocked.Example'',
                 log_method = ''GET'', status = ''BLOCKED'',
                 details = ''Domain is blocked''\<rparr>,
      ClientWrite (error_response ''403 Forbidden''),
      CloseClient]
   \<and> dials (HandleConnection (example_env (''CONNECT open.example:443 HTTP/1.1'' @ CRLF @ CRLF))
       [''blocked.example'' \<mapsto> True]) = [''open.example:443'']"
proof -
  let ?l1 = "''CONNECT blocked.example:443 HTTP/1.1'' @ CRLF"
  let ?l3 = "''CONNECT open.example:443 HTTP/1.1'' @ CRLF"
  let ?l2 = "''get http://www.Blocked.Example/x HTTP/1.1'' @ CRLF"
  let ?h2 = "''Host: other.example'' @ CRLF"
  let ?bl = "[''blocked.example'' \<mapsto> True]"
  have a: "remote_addr (example_env x) = ''192.0.2.7:50000''" for x
    by (simp add: example_env_def)
  have r1: "ReadString (client_input (example_env (?l1 @ CRLF))) LF = Some (?l1, CRLF)"
    by (simp add: example_env_def CRLF_def)
  have r2: "ReadString (client_input (example_env (?l2 @ ?h2 @ CRLF))) LF
      = Some (?l2, ?h2 @ CRLF)"
    by (simp add: example_env_def CRLF_def)
  have f1: "Fields ?l1 = [''CONNECT'', ''blocked.example:443'', ''HTTP/1.1'']"
    and f2: "Fields ?l2 = [''get'', ''http://www.Blocked.Example/x'', ''HTTP/1.1'']"
    by code_simp+
  have h1: "read_headers CRLF [] [] = ([], [], [])"
    and h2: "read_headers (?h2 @ CRLF) [] [] = ([?h2], ''other.example'', [])"
    by code_simp+
  have u: "ToUpper ''CONNECT'' = ''CONNECT''" "ToUpper ''get'' = ''GET''"
    by code_simp+
  have t1: "resolve ''CONNECT'' ''blocked.example:443'' [] = (''blocked.example'', ''443'')"
    and t2: "resolve ''GET'' ''http://www.Blocked.Example/x'' ''other.example''
      = (''www.Blocked.Example'', ''80'')"
    by code_simp+
  have b: "isBlocked ''blocked.example'' ?bl" "isBlocked ''www.Blocked.Example'' ?bl"
    by code_simp+
  have n1: "3 \<le> length (Fields ?l1)" and n2: "3 \<le> length (Fields ?l2)"
    unfolding f1 f2 by simp_all
  have m1: "ToUpper (Fields ?l1 ! 0) = ''CONNECT''" and m2: "ToUpper (Fields ?l2 ! 0) = ''GET''"
    unfolding f1 f2 by (simp_all add: u)
  have g1: "resolve (ToUpper (Fields ?l1 ! 0)) (Fields ?l1 ! 1) []
      = (''blocked.example'', ''443'')"
    unfolding m1 unfolding f1 by (simp add: t1)
  have g2: "resolve (ToUpper (Fields ?l2 ! 0)) (Fields ?l2 ! 1) ''other.example''
      = (''www.Blocked.Example'', ''80'')"
    unfolding m2 unfolding f2 by (simp add: t2)
  have c1: "HandleConnection (example_env (?l1 @ CRLF)) ?bl =
     [LogWrite \<lparr>clientAddr = ''192.0.2.7:50000'', targetHost = ''blocked.example'',
                 log_method = ''CONNECT'', status = ''BLOCKED'',
                 details = ''Domain is blocked''\<rparr>,
      ClientWrite (error_response ''403 Forbidden''),
      CloseClient]"
    using blocked_request [of "example_env (?l1 @ CRLF)" ?l1 CRLF "[]" "[]" "[]"
        "''blocked.example''" "''443''" ?bl] r1 n1 h1 g1 b(1)
    unfolding m1 a by blast
  have c2: "HandleConnection (example_env (?l2 @ ?h2 @ CRLF)) ?bl =
     [LogWrite \<lparr>clientAddr = ''192.0.2.7:50000'', targetHost = ''www.Blocked.Example'',
                 log_method = ''GET'', status = ''BLOCKED'',
                 details = ''Domain is blocked''\<rparr>,
      ClientWrite (error_response ''403 Forbidden''),
      CloseClient]"
    using blocked_request [of "example_env (?l2 @ ?h2 @ CRLF)" ?l2 "?h2 @ CRLF" "[?h2]"
        "''other.example''" "[]" "''www.Blocked.Example''" "''80''" ?bl] r2 n2 h2 g2 b(2)
    unfolding m2 a by blast
  have r3: "ReadString (client_input (example_env (?l3 @ CRLF))) LF = Some (?l3, CRLF)"
    by (simp add: example_env_def CRLF_def)
  have f3: "Fields ?l3 = [''CONNECT'', ''open.example:443'', ''HTTP/1.1'']"
    by code_simp
  have n3: "3 \<le> length (Fields ?l3)"
    unfolding f3 by simp
  have m3: "ToUpper (Fields ?l3 ! 0) = ''CONNECT''"
    unfolding f3 by (simp add: u)
  have t3: "resolve ''CONNECT'' ''open.example:443'' [] = (''open.example'', ''443'')"
    by code_simp
  have g3: "resolve (ToUpper (Fields ?l3 ! 0)) (Fields ?l3 ! 1) [] = (''open.example'', ''443'')"
    unfolding m3 unfolding f3 by (simp add: t3)
  have b3: "\<not> isBlocked ''open.example'' ?bl"
    by code_simp
  have j3: "JoinHostPort ''open.example'' ''443'' = ''open.example:443''"
    by code_simp
  have c3: "dials (HandleConnection (example_env (?l3 @ CRLF)) ?bl) = [''open.example:443'']"
    using blocked_request [of "example_env (?l3 @ CRLF)" ?l3 CRLF "[]" "[]" "[]"
        "''open.example''" "''443''" ?bl] r3 n3 h1 g3 b3
    unfolding j3 by blast
  show ?thesis
    using c1 c2 c3 by simp
qed

subsection \<open>The header lines\<close>

text \<open>
  The value that the loop leaves in \<^verbatim>\<open>hostHeader\<close> after the lines \<open>ls\<close>, when it
  held \<open>h\<close> before them.
\<close>

fun capture_host :: "string \<Rightarrow> string list \<Rightarrow> string" where
  "capture_host h [] = h"
| "capture_host h (l # ls) =
     capture_host (if HasPrefix (ToLower l) ''host:'' then TrimSpace (drop 5 l) else h) ls"

lemma capture_host_append:
  "capture_host h (xs @ ys) = capture_host (capture_host h xs) ys"
  by (induction xs arbitrary: h) auto

lemma capture_host_none:
  "\<forall>l \<in> set ls. \<not> HasPrefix (ToLower l) ''host:'' \<Longrightarrow> capture_host h ls = h"
  by (induction ls arbitrary: h) auto

lemma read_headers_capture:
  "read_headers input hs h = (headers, hostHeader, rest) \<Longrightarrow>
     \<exists>new. headers = hs @ new \<and> hostHeader = capture_host h new"
proof (induction input hs h rule: read_headers.induct)
  case (1 input hs h)
  show ?case
  proof (cases "ReadString input LF")
    case None
    with "1.prems" show ?thesis
      by (subst (asm) read_headers.simps) auto
  next
    case (Some lr)
    obtain line r where lr: "lr = (line, r)" by (cases lr)
    show ?thesis
    proof (cases "line = CRLF \<or> line = [LF]")
      case True
      with "1.prems" Some lr show ?thesis
        by (subst (asm) read_headers.simps) auto
    next
      case False
      let ?h = "if HasPrefix (ToLower line) ''host:'' then TrimSpace (drop 5 line) else h"
      have "read_headers r (hs @ [line]) ?h = (headers, hostHeader, rest)"
        using "1.prems" Some lr False by (subst (asm) read_headers.simps) simp
      from "1.IH" [OF Some lr [symmetric] False this]
      obtain new where "headers = (hs @ [line]) @ new" "hostHeader = capture_host ?h new"
        by blast
      then have "headers = hs @ (line # new) \<and> hostHeader = capture_host h (line # new)"
        by simp
      then show ?thesis by blast
    qed
  qed
qed

text \<open>
  The complete lines of a byte stream (each ends with its line feed; bytes after the
  last line feed are no line), and the header block of what follows a request line:
  the lines before the first line that is \<^verbatim>\<open>"\r\n"\<close> or \<^verbatim>\<open>"\n"\<close>.
\<close>

fun lines_scan :: "string \<Rightarrow> string \<Rightarrow> string list" where
  "lines_scan cur [] = []"
| "lines_scan cur (c # cs) =
     (if c = LF then (cur @ [c]) # lines_scan [] cs else lines_scan (cur @ [c]) cs)"

definition received_lines :: "string \<Rightarrow> string list" where
  "received_lines s = lines_scan [] s"

definition header_block :: "string \<Rightarrow> string list" where
  "header_block s = takeWhile (\<lambda>l. l \<noteq> CRLF \<and> l \<noteq> [LF]) (received_lines s)"

lemma lines_scan_None: "ReadString s LF = None \<Longrightarrow> lines_scan cur s = []"
  by (induction s arbitrary: cur) (auto split: if_splits option.splits)

lemma lines_scan_Some:
  "ReadString s LF = Some (line, rest) \<Longrightarrow> lines_scan cur s = (cur @ line) # lines_scan [] rest"
  by (induction s arbitrary: cur line) (auto split: if_splits option.splits)

lemma header_block_None: "ReadString s LF = None \<Longrightarrow> header_block s = []"
  by (simp add: header_block_def received_lines_def lines_scan_None)

lemma header_block_Some:
  "ReadString s LF = Some (line, rest) \<Longrightarrow>
     header_block s = (if line = CRLF \<or> line = [LF] then [] else line # header_block rest)"
  by (simp add: header_block_def received_lines_def lines_scan_Some)

lemma read_headers_block:
  "read_headers input hs h = (headers, hostHeader, rest) \<Longrightarrow> headers = hs @ header_block input"
proof (induction input hs h rule: read_headers.induct)
  case (1 input hs h)
  show ?case
  proof (cases "ReadString input LF")
    case None
    with "1.prems" show ?thesis
      by (subst (asm) read_headers.simps) (simp add: header_block_None)
  next
    case (Some lr)
    obtain line r where lr: "lr = (line, r)" by (cases lr)
    show ?thesis
    proof (cases "line = CRLF \<or> line = [LF]")
      case True
      with "1.prems" Some lr show ?thesis
        by (subst (asm) read_headers.simps) (auto simp: header_block_Some)
    next
      case False
      let ?h = "if HasPrefix (ToLower line) ''host:'' then TrimSpace (drop 5 line) else h"
      have "read_headers r (hs @ [line]) ?h = (headers, hostHeader, rest)"
        using "1.prems" Some lr False by (subst (asm) read_headers.simps) simp
      from "1.IH" [OF Some lr [symmetric] False this]
      have "headers = (hs @ [line]) @ header_block r" .
      then show ?thesis
        using Some lr False by (simp add: header_block_Some)
    qed
  qed
qed

lemma read_headers_result:
  "\<exists>hostHeader body. read_headers input [] [] = (header_block input, hostHeader, body)
     \<and> hostHeader = capture_host [] (header_block input)"
proof -
  obtain hs h b where r: "read_headers input [] [] = (hs, h, b)"
    by (cases "read_headers input [] []") auto
  from read_headers_block [OF r] read_headers_capture [OF r] r show ?thesis
    by auto
qed

text \<open>
  C8. When the header block holds several \<^verbatim>\<open>Host\<close> lines (the name in any case
  of its letters), the value the loop has captured at its end is that of the last
  one: for a \<^verbatim>\<open>Host\<close> line with no \<^verbatim>\<open>Host\<close> line after it, the loop returns the
  trimmed text after the first five bytes of that line, whatever came before it. This
  is the value that \<^verbatim>\<open>HandleConnection\<close> passes on to resolve the target.
\<close>

theorem last_Host_line_wins:
  assumes "header_block input = before @ line # after"
    and "HasPrefix (ToLower line) ''host:''"
    and "\<forall>l \<in> set after. \<not> HasPrefix (ToLower l) ''host:''"
  shows "\<exists>body. read_headers input [] [] = (header_block input, TrimSpace (drop 5 line), body)"
proof -
  obtain hostHeader body
    where r: "read_headers input [] [] = (header_block input, hostHeader, body)"
      and h: "hostHeader = capture_host [] (header_block input)"
    using read_headers_result by blast
  have "hostHeader = capture_host (capture_host (capture_host [] before) [line]) after"
    by (simp add: h assms(1) capture_host_append)
  also have "\<dots> = capture_host (TrimSpace (drop 5 line)) after"
    using assms(2) by simp
  also have "\<dots> = TrimSpace (drop 5 line)"
    using assms(3) by (rule capture_host_none)
  finally show ?thesis
    using r by blast
qed

text \<open>
  A request with two \<^verbatim>\<open>Host\<close> lines: the second is captured, and the handler dials
  the second.
\<close>

theorem last_Host_line_wins_witness:
  "header_block (''Host: first.example'' @ CRLF @ ''X-Note: a'' @ CRLF
                 @ ''hOsT:  second.example:8080 '' @ CRLF @ ''Accept: */*'' @ CRLF @ CRLF
                 @ ''body'')
     = [''Host: first.example'' @ CRLF, ''X-Note: a'' @ CRLF,
        ''hOsT:  second.example:8080 '' @ CRLF, ''Accept: */*'' @ CRLF]
   \<and> read_headers (''Host: first.example'' @ CRLF @ ''X-Note: a'' @ CRLF
                    @ ''hOsT:  second.example:8080 '' @ CRLF @ ''Accept: */*'' @ CRLF @ CRLF
                    @ ''body'') [] []
     = ([''Host: first.example'' @ CRLF, ''X-Note: a'' @ CRLF,
         ''hOsT:  second.example:8080 '' @ CRLF, ''Accept: */*'' @ CRLF],
        ''second.example:8080'', ''body'')
   \<and> dials (HandleConnection
        (example_env (''GET /p HTTP/1.1'' @ CRLF
                      @ ''Host: first.example'' @ CRLF @ ''X-Note: a'' @ CRLF
                      @ ''hOsT:  second.example:8080 '' @ CRLF @ ''Accept: */*'' @ CRLF
                      @ CRLF @ ''body''))
        Map.empty)
     = [''second.example:8080'']"
proof -
  let ?input = "''Host: first.example'' @ CRLF @ ''X-Note: a'' @ CRLF
     @ ''hOsT:  second.example:8080 '' @ CRLF @ ''Accept: */*'' @ CRLF @ CRLF @ ''body''"
  let ?before = "[''Host: first.example'' @ CRLF, ''X-Note: a'' @ CRLF]"
  let ?line = "''hOsT:  second.example:8080 '' @ CRLF"
  let ?after = "[''Accept: */*'' @ CRLF]"
  have b: "header_block ?input = ?before @ ?line # ?after"
    by code_simp
  have l: "HasPrefix (ToLower ?line) ''host:''"
    by code_simp
  have a: "\<forall>l \<in> set ?after. \<not> HasPrefix (ToLower l) ''host:''"
    by code_simp
  have t: "TrimSpace (drop 5 ?line) = ''second.example:8080''"
    by code_simp
  obtain body where r: "read_headers ?input [] [] = (header_block ?input, TrimSpace (drop 5 ?line), body)"
    using last_Host_line_wins [OF b l a] by blast
  have "snd (snd (read_headers ?input [] [])) = ''body''"
    by code_simp
  with r have "body = ''body''" by simp
  moreover have "dials (HandleConnection
        (example_env (''GET /p HTTP/1.1'' @ CRLF
                      @ ''Host: first.example'' @ CRLF @ ''X-Note: a'' @ CRLF
                      @ ''hOsT:  second.example:8080 '' @ CRLF @ ''Accept: */*'' @ CRLF
                      @ CRLF @ ''body''))
        Map.empty)
     = [''second.example:8080'']"
    by code_simp
  ultimately show ?thesis
    using r b t by simp
qed


lemma target_writes_append: "target_writes (xs @ ys) = target_writes xs @ target_writes ys"
  by (induction xs rule: target_writes.induct) auto

lemma target_writes_map: "target_writes (map TargetWrite hs) = hs"
  by (induction hs) auto

text \<open>
  C9. For a request of a method other than \<^verbatim>\<open>CONNECT\<close> that is forwarded (the host
  is not blocked, the dial succeeds and the request line is written), the header list
  is the header block as received, \<^verbatim>\<open>Host\<close> lines included, and what the handler
  writes to the target is the rewritten request line, then every line of the header
  block unchanged and in order, then the blank line.
\<close>

theorem headers_forwarded:
  assumes "ReadString (client_input env) LF = Some (requestLine, rest)"
    and "3 \<le> length (Fields requestLine)"
    and "read_headers rest [] [] = (headers, hostHeader, body)"
    and "resolve (ToUpper (Fields requestLine ! 0)) (Fields requestLine ! 1) hostHeader
           = (host, port)"
    and "ToUpper (Fields requestLine ! 0) \<noteq> ''CONNECT''"
    and "\<not> isBlocked host blocklist"
    and "dial_error env (JoinHostPort host port) = None"
    and "target_write_ok env 0"
  shows "headers = header_block rest
       \<and> target_writes (HandleConnection env blocklist) =
           (ToUpper (Fields requestLine ! 0) @ '' '' @ cleanRequestURI (Fields requestLine ! 1)
              @ '' '' @ Fields requestLine ! 2 @ CRLF)
           # header_block rest @ [CRLF]"
proof -
  have h: "headers = header_block rest"
    using read_headers_block [OF assms(3)] by simp
  have "target_writes (HandleConnection env blocklist) =
      (ToUpper (Fields requestLine ! 0) @ '' '' @ cleanRequestURI (Fields requestLine ! 1)
         @ '' '' @ Fields requestLine ! 2 @ CRLF)
      # headers @ [CRLF]"
    using assms
    by (simp add: HandleConnection_def handleHTTP_def Let_def logConnection_def
        target_writes_append target_writes_map)
  with h show ?thesis by simp
qed

text \<open>A forwarded request with two \<^verbatim>\<open>Host\<close> lines: both reach the target.\<close>

theorem headers_forwarded_witness:
  "target_writes
     (HandleConnection
        (example_env (''GET http://site.example/p?q=1 HTTP/1.1'' @ CRLF
                      @ ''Host: site.example'' @ CRLF @ ''X-Note: a'' @ CRLF
                      @ ''host: other.example'' @ CRLF @ CRLF @ ''body''))
        Map.empty)
     = [''GET /p?q=1 HTTP/1.1'' @ CRLF, ''Host: site.example'' @ CRLF, ''X-Note: a'' @ CRLF,
        ''host: other.example'' @ CRLF, CRLF]"
proof -
  let ?l = "''GET http://site.example/p?q=1 HTTP/1.1'' @ CRLF"
  let ?rest = "''Host: site.example'' @ CRLF @ ''X-Note: a'' @ CRLF
     @ ''host: other.example'' @ CRLF @ CRLF @ ''body''"
  let ?hs = "[''Host: site.example'' @ CRLF, ''X-Note: a'' @ CRLF, ''host: other.example'' @ CRLF]"
  let ?env = "example_env (?l @ ?rest)"
  have r: "ReadString (client_input ?env) LF = Some (?l, ?rest)"
    by (simp add: example_env_def CRLF_def)
  have f: "Fields ?l = [''GET'', ''http://site.example/p?q=1'', ''HTTP/1.1'']"
    by code_simp
  have n: "3 \<le> length (Fields ?l)"
    unfolding f by simp
  have h: "read_headers ?rest [] [] = (?hs, ''other.example'', ''body'')"
    by code_simp
  have m: "ToUpper (Fields ?l ! 0) = ''GET''"
    unfolding f by code_simp
  have t: "resolve ''GET'' ''http://site.example/p?q=1'' ''other.example'' = (''site.example'', ''80'')"
    by code_simp
  have g: "resolve (ToUpper (Fields ?l ! 0)) (Fields ?l ! 1) ''other.example''
      = (''site.example'', ''80'')"
    unfolding m unfolding f by (simp add: t)
  have c: "ToUpper (Fields ?l ! 0) \<noteq> ''CONNECT''"
    unfolding m by simp
  have b: "\<not> isBlocked ''site.example'' Map.empty"
    by code_simp
  have d: "dial_error ?env (JoinHostPort ''site.example'' ''80'') = None"
    by (simp add: example_env_def)
  have w: "target_write_ok ?env 0"
    by (simp add: example_env_def)
  have u: "cleanRequestURI (Fields ?l ! 1) = ''/p?q=1''" "Fields ?l ! 2 = ''HTTP/1.1''"
    unfolding f by code_simp+
  have "target_writes (HandleConnection ?env Map.empty) =
      (ToUpper (Fields ?l ! 0) @ '' '' @ cleanRequestURI (Fields ?l ! 1)
         @ '' '' @ Fields ?l ! 2 @ CRLF) # header_block ?rest @ [CRLF]"
    and "?hs = header_block ?rest"
    using headers_forwarded [OF r n h g c b d w] by blast+
  then have "target_writes (HandleConnection ?env Map.empty) =
      (''GET'' @ '' '' @ ''/p?q=1'' @ '' '' @ ''HTTP/1.1'' @ CRLF) # ?hs @ [CRLF]"
    unfolding m u by simp
  then show ?thesis by simp
qed

text \<open>
  C10. In \<^verbatim>\<open>handleHTTP\<close>, when the dial succeeds and the write of the request line
  fails, the client gets one \<^verbatim>\<open>502 Bad Gateway\<close> response and one log record tagged
  \<^verbatim>\<open>ERROR\<close> is written, as after a failed dial. When the write of the request line
  succeeds, every header line and the blank line are written, the record tagged
  \<^verbatim>\<open>OK\<close> is logged and the relay starts, and what \<^verbatim>\<open>handleHTTP\<close> does is the same
  whatever the outcomes of the writes after the first are.
\<close>

theorem forward_write_failure:
  "(dial_error env (JoinHostPort host port) = None \<and> \<not> target_write_ok env 0 \<longrightarrow>
      handleHTTP env method rawURI httpVersion headers body host port =
        [DialTimeout (JoinHostPort host port),
         TargetWrite (method @ '' '' @ cleanRequestURI rawURI @ '' '' @ httpVersion @ CRLF),
         LogWrite \<lparr>clientAddr = remote_addr env, targetHost = host, log_method = method,
                    status = ''ERROR'', details = ''Failed to forward request''\<rparr>,
         ClientWrite (error_response ''502 Bad Gateway''),
         CloseTarget])
   \<and> (dial_error env (JoinHostPort host port) = Some err \<longrightarrow>
      handleHTTP env method rawURI httpVersion headers body host port =
        [DialTimeout (JoinHostPort host port),
         LogWrite \<lparr>clientAddr = remote_addr env, targetHost = host, log_method = method,
                    status = ''ERROR'', details = ''Failed to connect: '' @ err\<rparr>,
         ClientWrite (error_response ''502 Bad Gateway'')])
   \<and> (dial_error env (JoinHostPort host port) = None \<and> target_write_ok env 0 \<longrightarrow>
      handleHTTP env method rawURI httpVersion headers body host port =
        [DialTimeout (JoinHostPort host port),
         TargetWrite (method @ '' '' @ cleanRequestURI rawURI @ '' '' @ httpVersion @ CRLF)]
        @ map TargetWrite headers
        @ [TargetWrite CRLF,
           LogWrite \<lparr>clientAddr = remote_addr env, targetHost = host, log_method = method,
                      status = ''OK'', details = cleanRequestURI rawURI\<rparr>,
           RelayFromReader body,
           CloseTarget])
   \<and> (f 0 = target_write_ok env 0 \<longrightarrow>
      handleHTTP (env\<lparr>target_write_ok := f\<rparr>) method rawURI httpVersion headers body host port =
      handleHTTP env method rawURI httpVersion headers body host port)"
proof (intro conjI impI)
  assume "dial_error env (JoinHostPort host port) = None \<and> \<not> target_write_ok env 0"
  then show "handleHTTP env method rawURI httpVersion headers body host port =
      [DialTimeout (JoinHostPort host port),
       TargetWrite (method @ '' '' @ cleanRequestURI rawURI @ '' '' @ httpVersion @ CRLF),
       LogWrite \<lparr>clientAddr = remote_addr env, targetHost = host, log_method = method,
                  status = ''ERROR'', details = ''Failed to forward request''\<rparr>,
       ClientWrite (error_response ''502 Bad Gateway''),
       CloseTarget]"
    by (simp add: handleHTTP_def Let_def logConnection_def sendError_502)
next
  assume "dial_error env (JoinHostPort host port) = Some err"
  then show "handleHTTP env method rawURI httpVersion headers body host port =
      [DialTimeout (JoinHostPort host port),
       LogWrite \<lparr>clientAddr = remote_addr env, targetHost = host, log_method = method,
                  status = ''ERROR'', details = ''Failed to connect: '' @ err\<rparr>,
       ClientWrite (error_response ''502 Bad Gateway'')]"
    by (simp add: handleHTTP_def Let_def logConnection_def sendError_502)
next
  assume "dial_error env (JoinHostPort host port) = None \<and> target_write_ok env 0"
  then show "handleHTTP env method rawURI httpVersion headers body host port =
      [DialTimeout (JoinHostPort host port),
       TargetWrite (method @ '' '' @ cleanRequestURI rawURI @ '' '' @ httpVersion @ CRLF)]
      @ map TargetWrite headers
      @ [TargetWrite CRLF,
         LogWrite \<lparr>clientAddr = remote_addr env, targetHost = host, log_method = method,
                    status = ''OK'', details = cleanRequestURI rawURI\<rparr>,
         RelayFromReader body,
         CloseTarget]"
    by (simp add: handleHTTP_def Let_def logConnection_def)
next
  assume first: "f 0 = target_write_ok env 0"
  have same: "dial_error (env\<lparr>target_write_ok := f\<rparr>) = dial_error env"
    "remote_addr (env\<lparr>target_write_ok := f\<rparr>) = remote_addr env"
    "target_write_ok (env\<lparr>target_write_ok := f\<rparr>) 0 = target_write_ok env 0"
    using first by simp_all
  show "handleHTTP (env\<lparr>target_write_ok := f\<rparr>) method rawURI httpVersion headers body
        host port =
      handleHTTP env method rawURI httpVersion headers body host port"
    unfolding handleHTTP_def same ..
qed


text \<open>
  The three runs: every write to the target fails, the dial fails, and only the write
  of the request line succeeds.
\<close>

theorem forward_write_failure_witness:
  "handleHTTP (example_env []\<lparr>target_write_ok := (\<lambda>k. False)\<rparr>)
      ''GET'' ''http://site.example/p'' ''HTTP/1.1'' [''Host: site.example'' @ CRLF] ''body''
      ''site.example'' ''80'' =
     [DialTimeout ''site.example:80'',
      TargetWrite (''GET /p HTTP/1.1'' @ CRLF),
      LogWrite \<lparr>clientAddr = ''192.0.2.7:50000'', targetHost = ''site.example'',
                 log_method = ''GET'', status = ''ERROR'',
                 details = ''Failed to forward request''\<rparr>,
      ClientWrite (error_response ''502 Bad Gateway''),
      CloseTarget]
   \<and> handleHTTP (example_env []\<lparr>dial_error := (\<lambda>addr. Some ''connection refused'')\<rparr>)
      ''GET'' ''http://site.example/p'' ''HTTP/1.1'' [''Host: site.example'' @ CRLF] ''body''
      ''site.example'' ''80'' =
     [DialTimeout ''site.example:80'',
      LogWrite \<lparr>clientAddr = ''192.0.2.7:50000'', targetHost = ''site.example'',
                 log_method = ''GET'', status = ''ERROR'',
                 details = ''Failed to connect: connection refused''\<rparr>,
      ClientWrite (error_response ''502 Bad Gateway'')]
   \<and> handleHTTP (example_env []\<lparr>target_write_ok := (\<lambda>k. k = 0)\<rparr>)
      ''GET'' ''http://site.example/p'' ''HTTP/1.1'' [''Host: site.example'' @ CRLF] ''body''
      ''site.example'' ''80'' =
     [DialTimeout ''site.example:80'',
      TargetWrite (''GET /p HTTP/1.1'' @ CRLF),
      TargetWrite (''Host: site.example'' @ CRLF),
      TargetWrite CRLF,
      LogWrite \<lparr>clientAddr = ''192.0.2.7:50000'', targetHost = ''site.example'',
                 log_method = ''GET'', status = ''OK'', details = ''/p''\<rparr>,
      RelayFromReader ''body'',
      CloseTarget]
   \<and> handleHTTP (example_env []\<lparr>target_write_ok := (\<lambda>k. k = 0)\<rparr>)
      ''GET'' ''http://site.example/p'' ''HTTP/1.1'' [''Host: site.example'' @ CRLF] ''body''
      ''site.example'' ''80'' =
     handleHTTP (example_env [])
      ''GET'' ''http://site.example/p'' ''HTTP/1.1'' [''Host: site.example'' @ CRLF] ''body''
      ''site.example'' ''80''"
proof -
  let ?e1 = "example_env []\<lparr>target_write_ok := (\<lambda>k. False)\<rparr>"
  let ?e2 = "example_env []\<lparr>dial_error := (\<lambda>addr. Some ''connection refused'')\<rparr>"
  let ?e3 = "example_env []\<lparr>target_write_ok := (\<lambda>k. k = 0)\<rparr>"
  have j: "JoinHostPort ''site.example'' ''80'' = ''site.example:80''"
    by code_simp
  have c: "cleanRequestURI ''http://site.example/p'' = ''/p''"
    by code_simp
  have e1: "dial_error ?e1 (JoinHostPort ''site.example'' ''80'') = None
      \<and> \<not> target_write_ok ?e1 0"
    and e2: "dial_error ?e2 (JoinHostPort ''site.example'' ''80'') = Some ''connection refused''"
    and e3: "dial_error ?e3 (JoinHostPort ''site.example'' ''80'') = None
      \<and> target_write_ok ?e3 0"
    and a: "remote_addr ?e1 = ''192.0.2.7:50000''" "remote_addr ?e2 = ''192.0.2.7:50000''"
      "remote_addr ?e3 = ''192.0.2.7:50000''"
    by (simp_all add: example_env_def)
  note t1 = forward_write_failure [of ?e1 "''site.example''" "''80''" "''GET''"
      "''http://site.example/p''" "''HTTP/1.1''" "[''Host: site.example'' @ CRLF]" "''body''"
      "[]" "\<lambda>k. False"]
  note t2 = forward_write_failure [of ?e2 "''site.example''" "''80''" "''GET''"
      "''http://site.example/p''" "''HTTP/1.1''" "[''Host: site.example'' @ CRLF]" "''body''"
      "''connection refused''" "\<lambda>k. False"]
  note t3 = forward_write_failure [of ?e3 "''site.example''" "''80''" "''GET''"
      "''http://site.example/p''" "''HTTP/1.1''" "[''Host: site.example'' @ CRLF]" "''body''"
      "[]" "\<lambda>k. False"]
  have c1: "handleHTTP ?e1 ''GET'' ''http://site.example/p'' ''HTTP/1.1''
      [''Host: site.example'' @ CRLF] ''body'' ''site.example'' ''80'' =
        [DialTimeout (JoinHostPort ''site.example'' ''80''),
         TargetWrite (''GET'' @ '' '' @ cleanRequestURI ''http://site.example/p'' @ '' ''
                      @ ''HTTP/1.1'' @ CRLF),
         LogWrite \<lparr>clientAddr = remote_addr ?e1, targetHost = ''site.example'',
                    log_method = ''GET'', status = ''ERROR'',
                    details = ''Failed to forward request''\<rparr>,
         ClientWrite (error_response ''502 Bad Gateway''),
         CloseTarget]"
    using t1 e1 by blast
  have c2: "handleHTTP ?e2 ''GET'' ''http://site.example/p'' ''HTTP/1.1''
      [''Host: site.example'' @ CRLF] ''body'' ''site.example'' ''80'' =
        [DialTimeout (JoinHostPort ''site.example'' ''80''),
         LogWrite \<lparr>clientAddr = remote_addr ?e2, targetHost = ''site.example'',
                    log_method = ''GET'', status = ''ERROR'',
                    details = ''Failed to connect: '' @ ''connection refused''\<rparr>,
         ClientWrite (error_response ''502 Bad Gateway'')]"
    using t2 e2 by blast
  have c3: "handleHTTP ?e3 ''GET'' ''http://site.example/p'' ''HTTP/1.1''
      [''Host: site.example'' @ CRLF] ''body'' ''site.example'' ''80'' =
        [DialTimeout (JoinHostPort ''site.example'' ''80''),
         TargetWrite (''GET'' @ '' '' @ cleanRequestURI ''http://site.example/p'' @ '' ''
                      @ ''HTTP/1.1'' @ CRLF)]
        @ map TargetWrite [''Host: site.example'' @ CRLF]
        @ [TargetWrite CRLF,
           LogWrite \<lparr>clientAddr = remote_addr ?e3, targetHost = ''site.example'',
                      log_method = ''GET'', status = ''OK'',
                      details = cleanRequestURI ''http://site.example/p''\<rparr>,
           RelayFromReader ''body'',
           CloseTarget]"
    using t3 e3 by blast
  have e4: "(0::nat) = 0 \<longleftrightarrow> target_write_ok (example_env []) 0"
    by (simp add: example_env_def)
  have c4: "handleHTTP ?e3 ''GET'' ''http://site.example/p'' ''HTTP/1.1''
      [''Host: site.example'' @ CRLF] ''body'' ''site.example'' ''80'' =
     handleHTTP (example_env []) ''GET'' ''http://site.example/p'' ''HTTP/1.1''
      [''Host: site.example'' @ CRLF] ''body'' ''site.example'' ''80''"
    using forward_write_failure [of "example_env []" "''site.example''" "''80''" "''GET''"
        "''http://site.example/p''" "''HTTP/1.1''" "[''Host: site.example'' @ CRLF]" "''body''"
        "[]" "\<lambda>k. k = 0"] e4
    by blast
  have c123: "handleHTTP ?e1 ''GET'' ''http://site.example/p'' ''HTTP/1.1''
        [''Host: site.example'' @ CRLF] ''body'' ''site.example'' ''80'' =
       [DialTimeout ''site.example:80'',
        TargetWrite (''GET /p HTTP/1.1'' @ CRLF),
        LogWrite \<lparr>clientAddr = ''192.0.2.7:50000'', targetHost = ''site.example'',
                   log_method = ''GET'', status = ''ERROR'',
                   details = ''Failed to forward request''\<rparr>,
        ClientWrite (error_response ''502 Bad Gateway''),
        CloseTarget]
     \<and> handleHTTP ?e2 ''GET'' ''http://site.example/p'' ''HTTP/1.1''
        [''Host: site.example'' @ CRLF] ''body'' ''site.example'' ''80'' =
       [DialTimeout ''site.example:80'',
        LogWrite \<lparr>clientAddr = ''192.0.2.7:50000'', targetHost = ''site.example'',
                   log_method = ''GET'', status = ''ERROR'',
                   details = ''Failed to connect: connection refused''\<rparr>,
        ClientWrite (error_response ''502 Bad Gateway'')]
     \<and> handleHTTP ?e3 ''GET'' ''http://site.example/p'' ''HTTP/1.1''
        [''Host: site.example'' @ CRLF] ''body'' ''site.example'' ''80'' =
       [DialTimeout ''site.example:80'',
        TargetWrite (''GET /p HTTP/1.1'' @ CRLF),
        TargetWrite (''Host: site.example'' @ CRLF),
        TargetWrite CRLF,
        LogWrite \<lparr>clientAddr = ''192.0.2.7:50000'', targetHost = ''site.example'',
                   log_method = ''GET'', status = ''OK'', details = ''/p''\<rparr>,
        RelayFromReader ''body'',
        CloseTarget]"
    unfolding c1 c2 c3 unfolding j c a by simp
  show ?thesis
    using c123 c4 by blast
qed

section \<open>Where the resolver departs from its description\<close>

text \<open>
  C3. The description of the resolver, and the comment on \<^verbatim>\<open>parseHostPort\<close> (\<^verbatim>\<open>using
  defaultPort if not specified\<close>), give port \<^verbatim>\<open>443\<close> to a \<^verbatim>\<open>CONNECT\<close> target without a
  port and port \<^verbatim>\<open>80\<close> to a \<^verbatim>\<open>Host\<close> value without a port. The code takes the default
  only when \<^verbatim>\<open>net.SplitHostPort\<close> fails, and \<^verbatim>\<open>net.SplitHostPort\<close> accepts a colon
  with nothing after it: for \<^verbatim>\<open>site.com:\<close> the port stays empty, in the \<^verbatim>\<open>CONNECT\<close>
  branch and in the \<^verbatim>\<open>Host\<close> branch, and the handler dials \<^verbatim>\<open>site.com:\<close>. The branch
  for an absolute URI does take the default for the same empty port.
\<close>

theorem resolve_empty_port:
  "parseHostPort ''site.com:'' ''443'' = (''site.com'', [])
   \<and> resolve ''CONNECT'' ''site.com:'' [] = (''site.com'', [])
   \<and> resolve ''GET'' ''/p'' ''site.com:'' = (''site.com'', [])
   \<and> resolve ''GET'' ''http://site.com:/p'' [] = (''site.com'', ''80'')
   \<and> dials (HandleConnection (example_env (''CONNECT site.com: HTTP/1.1'' @ CRLF @ CRLF))
        Map.empty) = [''site.com:'']"
proof -
  have split: "SplitHostPort ''site.com:'' = Inr (''site.com'', [])"
    by code_simp
  then have parsed: "parseHostPort ''site.com:'' ''443'' = (''site.com'', [])"
    by (simp add: parseHostPort_def)
  then have connect: "resolve ''CONNECT'' ''site.com:'' [] = (''site.com'', [])"
    by (simp add: resolve_def)
  have header: "resolve ''GET'' ''/p'' ''site.com:'' = (''site.com'', [])"
    by code_simp
  have absolute: "resolve ''GET'' ''http://site.com:/p'' [] = (''site.com'', ''80'')"
    by code_simp
  have dialled: "dials (HandleConnection
      (example_env (''CONNECT site.com: HTTP/1.1'' @ CRLF @ CRLF)) Map.empty) = [''site.com:'']"
    by code_simp
  from parsed connect header absolute dialled show ?thesis
    by blast
qed

text \<open>
  C4. The description of \<^verbatim>\<open>cleanRequestURI\<close> is that it turns an absolute URI into
  the relative one: the path component and the query. The code takes the field
  \<^verbatim>\<open>Path\<close> of the parsed URL, in which the percent-escapes are decoded, while it keeps
  the query raw and returns a URI in origin form as it is. For
  \<^verbatim>\<open>http://a.com/a%20b\<close> the result is \<^verbatim>\<open>/a b\<close>, not \<^verbatim>\<open>/a%20b\<close>, and the request line
  written to the target is \<^verbatim>\<open>GET /a b HTTP/1.1\<close>; an escaped carriage return and
  line feed in the path come out as a line break in the result.
\<close>

theorem cleanRequestURI_decodes_path:
  "cleanRequestURI ''http://a.com/a%20b'' = ''/a b''
   \<and> cleanRequestURI ''/a%20b'' = ''/a%20b''
   \<and> cleanRequestURI ''http://a.com/a?q=%20b'' = ''/a?q=%20b''
   \<and> cleanRequestURI ''http://a.com/x%0d%0aX-Injected:%20yes''
       = ''/x'' @ CRLF @ ''X-Injected: yes''
   \<and> target_writes (HandleConnection
        (example_env (''GET http://a.com/a%20b HTTP/1.1'' @ CRLF @ CRLF)) Map.empty)
       = [''GET /a b HTTP/1.1'' @ CRLF, CRLF]"
proof -
  have decoded: "cleanRequestURI ''http://a.com/a%20b'' = ''/a b''"
    by code_simp
  have origin: "cleanRequestURI ''/a%20b'' = ''/a%20b''"
    by code_simp
  have query: "cleanRequestURI ''http://a.com/a?q=%20b'' = ''/a?q=%20b''"
    by code_simp
  have break: "cleanRequestURI ''http://a.com/x%0d%0aX-Injected:%20yes''
      = ''/x'' @ CRLF @ ''X-Injected: yes''"
    by code_simp
  have forwarded: "target_writes (HandleConnection
      (example_env (''GET http://a.com/a%20b HTTP/1.1'' @ CRLF @ CRLF)) Map.empty)
      = [''GET /a b HTTP/1.1'' @ CRLF, CRLF]"
    by code_simp
  from decoded origin query break forwarded show ?thesis
    by blast
qed

end
